theory Spec2Isabelle
  imports Complex_Main "HOL-Library.Word"
begin

section \<open>JavaScript values, errors and strings\<close>

text \<open>
  The transaction simulator (\<^verbatim>\<open>transaction-simulation.js\<close>, class
  \<^verbatim>\<open>TransactionSimulator\<close>) is dynamically typed. The fields of a transaction request
  reach it as \<^verbatim>\<open>undefined\<close>, \<^verbatim>\<open>null\<close>, a string (the tool layer declares every
  field as an optional string) or a BigInt (the simulator itself stores BigInts into its
  copy). JavaScript Numbers are not part of the model. Strings are ASCII.
\<close>

datatype jsval = JUndefined | JNull | JStr string | JBig int

text \<open>Truthiness, as tested by \<^verbatim>\<open>!x\<close>, \<^verbatim>\<open>x && y\<close>, \<^verbatim>\<open>x || y\<close> and \<^verbatim>\<open>x ? a : b\<close>.\<close>

fun truthy :: "jsval \<Rightarrow> bool" where
  "truthy JUndefined = False"
| "truthy JNull = False"
| "truthy (JStr s) = (s \<noteq> [])"
| "truthy (JBig n) = (n \<noteq> 0)"

definition js_or :: "jsval \<Rightarrow> jsval \<Rightarrow> jsval" where
  "js_or a b = (if truthy a then a else b)"

text \<open>
  A thrown value. Every value thrown in the simulator is an \<^verbatim>\<open>Error\<close> object: it has a
  name and a message; errors of the RPC client may carry \<^verbatim>\<open>data\<close>; the error classes
  of \<^verbatim>\<open>errors.js\<close> (\<^verbatim>\<open>PolygonMCPError\<close> and its subclasses) add a code and a
  bag of details. A detail is a reference to an object of the store, a plain value, or
  another error.
\<close>

datatype js_error =
  JsError (e_name: string) (e_code: "string option") (e_message: string) (e_data: jsval)
    (e_details: "(string \<times> detail) list")
and detail = DObject nat | DValue jsval | DCause js_error

definition new_Error :: "string \<Rightarrow> js_error" where
  "new_Error msg = JsError ''Error'' None msg JUndefined []"

definition TypeError :: "string \<Rightarrow> js_error" where
  "TypeError msg = JsError ''TypeError'' None msg JUndefined []"

definition SyntaxError :: "string \<Rightarrow> js_error" where
  "SyntaxError msg = JsError ''SyntaxError'' None msg JUndefined []"

text \<open>\<^verbatim>\<open>errors.js\<close>: the error codes used by the simulator, and \<^verbatim>\<open>createTransactionError\<close>.\<close>

definition TRANSACTION_FAILED :: string where
  "TRANSACTION_FAILED = ''TRANSACTION_FAILED''"

definition INVALID_ADDRESS :: string where
  "INVALID_ADDRESS = ''INVALID_ADDRESS''"

definition createTransactionError :: "string \<Rightarrow> string \<Rightarrow> (string \<times> detail) list \<Rightarrow> js_error" where
  "createTransactionError code msg details = JsError ''TransactionError'' (Some code) msg JUndefined details"

subsection \<open>BigInt arithmetic and decimal strings\<close>

text \<open>BigInt division \<^verbatim>\<open>a / b\<close> truncates towards zero.\<close>

definition bigint_div :: "int \<Rightarrow> int \<Rightarrow> int" where
  "bigint_div a b = sgn a * sgn b * (\<bar>a\<bar> div \<bar>b\<bar>)"

definition digit_char :: "nat \<Rightarrow> char" where
  "digit_char d = ''0123456789abcdef'' ! d"

fun dec_digits :: "nat \<Rightarrow> string" where
  "dec_digits n = (if n < 10 then [digit_char n] else dec_digits (n div 10) @ [digit_char (n mod 10)])"

fun hex_digits :: "nat \<Rightarrow> string" where
  "hex_digits n = (if n < 16 then [digit_char n] else hex_digits (n div 16) @ [digit_char (n mod 16)])"

declare dec_digits.simps [simp del] hex_digits.simps [simp del]

text \<open>\<^verbatim>\<open>n.toString()\<close> of a BigInt.\<close>

definition bigint_toString :: "int \<Rightarrow> string" where
  "bigint_toString n = (if n < 0 then CHR ''-'' # dec_digits (nat (- n)) else dec_digits (nat n))"

text \<open>
  \<^verbatim>\<open>BigInt(x)\<close>. A string is trimmed; the empty string is zero; a decimal literal may
  carry a sign; a literal with prefix \<^verbatim>\<open>0x\<close>, \<^verbatim>\<open>0o\<close> or \<^verbatim>\<open>0b\<close> may not; anything
  else is a SyntaxError. \<^verbatim>\<open>undefined\<close> and \<^verbatim>\<open>null\<close> are a TypeError.
\<close>

definition digit_val :: "char \<Rightarrow> nat option" where
  "digit_val c =
     (let n = (of_char c :: nat) in
      if 48 \<le> n \<and> n \<le> 57 then Some (n - 48)
      else if 97 \<le> n \<and> n \<le> 102 then Some (n - 87)
      else if 65 \<le> n \<and> n \<le> 70 then Some (n - 55)
      else None)"

fun digits_value :: "nat \<Rightarrow> nat \<Rightarrow> string \<Rightarrow> nat option" where
  "digits_value b acc [] = Some acc"
| "digits_value b acc (c # cs) =
     (case digit_val c of
        None \<Rightarrow> None
      | Some d \<Rightarrow> if d < b then digits_value b (acc * b + d) cs else None)"

definition parse_digits :: "nat \<Rightarrow> string \<Rightarrow> nat option" where
  "parse_digits b ds = (if ds = [] then None else digits_value b 0 ds)"

definition is_whitespace :: "char \<Rightarrow> bool" where
  "is_whitespace c = (c = CHR '' '' \<or> c = CHR 0x09 \<or> c = CHR 0x0A \<or> c = CHR 0x0B \<or> c = CHR 0x0C \<or> c = CHR 0x0D)"

definition js_trim :: "string \<Rightarrow> string" where
  "js_trim s = rev (dropWhile is_whitespace (rev (dropWhile is_whitespace s)))"

definition StringToBigInt :: "string \<Rightarrow> int option" where
  "StringToBigInt s =
     (let t = js_trim s in
      if t = [] then Some 0
      else if take 2 t = ''0x'' \<or> take 2 t = ''0X'' then map_option int (parse_digits 16 (drop 2 t))
      else if take 2 t = ''0o'' \<or> take 2 t = ''0O'' then map_option int (parse_digits 8 (drop 2 t))
      else if take 2 t = ''0b'' \<or> take 2 t = ''0B'' then map_option int (parse_digits 2 (drop 2 t))
      else if hd t = CHR ''-'' then map_option (\<lambda>n. - int n) (parse_digits 10 (tl t))
      else if hd t = CHR ''+'' then map_option int (parse_digits 10 (tl t))
      else map_option int (parse_digits 10 t))"

fun BigInt :: "jsval \<Rightarrow> js_error + int" where
  "BigInt JUndefined = Inl (TypeError ''Cannot convert undefined to a BigInt'')"
| "BigInt JNull = Inl (TypeError ''Cannot convert null to a BigInt'')"
| "BigInt (JBig n) = Inr n"
| "BigInt (JStr s) =
     (case StringToBigInt s of
        Some n \<Rightarrow> Inr n
      | None \<Rightarrow> Inl (SyntaxError (''Cannot convert '' @ s @ '' to a BigInt'')))"

text \<open>\<^verbatim>\<open>String(x)\<close>, as used by string concatenation.\<close>

fun js_String :: "jsval \<Rightarrow> string" where
  "js_String JUndefined = ''undefined''"
| "js_String JNull = ''null''"
| "js_String (JStr s) = s"
| "js_String (JBig n) = bigint_toString n"

text \<open>\<^verbatim>\<open>s.startsWith(p)\<close> and \<^verbatim>\<open>s.includes(p)\<close>.\<close>

definition startsWith :: "string \<Rightarrow> string \<Rightarrow> bool" where
  "startsWith s p = (take (length p) s = p)"

fun js_includes :: "string \<Rightarrow> string \<Rightarrow> bool" where
  "js_includes [] p = (p = [])"
| "js_includes (c # cs) p = (startsWith (c # cs) p \<or> js_includes cs p)"

subsection \<open>Unit formatting of the ethers library\<close>

text \<open>
  \<^verbatim>\<open>formatUnits(value, decimals)\<close> is a function of the ethers library, not of this
  repository. The string it returns is \<open>fixed_toString\<close>: the decimal string of
  \<open>value / 10 ^ decimals\<close>, with the trailing zeros of the fraction removed but at least one
  fractional digit kept, and no decimal point at all for zero decimals. The library refuses
  some arguments; \<open>formatUnits\<close> itself, with these checks, follows the collaborators below.
  The unit name \<^verbatim>\<open>'gwei'\<close> is 9 decimals, and \<^verbatim>\<open>parseUnits('50', 'gwei')\<close> is
  \<open>50 * 10 ^ 9\<close>.
\<close>

definition pad_zeros :: "nat \<Rightarrow> string \<Rightarrow> string" where
  "pad_zeros w s = replicate (w - length s) (CHR ''0'') @ s"

definition strip_fraction :: "string \<Rightarrow> string" where
  "strip_fraction f = (let g = rev (dropWhile (\<lambda>c. c = CHR ''0'') (rev f)) in if g = [] then ''0'' else g)"

definition fixed_toString :: "int \<Rightarrow> nat \<Rightarrow> string" where
  "fixed_toString v d =
     (let a = nat \<bar>v\<bar>;
          sign = (if v < 0 then ''-'' else '''');
          whole = dec_digits (a div 10 ^ d)
      in if d = 0 then sign @ whole
         else sign @ whole @ ''.'' @ strip_fraction (pad_zeros d (dec_digits (a mod 10 ^ d))))"

definition gwei_decimals :: nat where
  "gwei_decimals = 9"

definition parseUnits_50_gwei :: int where
  "parseUnits_50_gwei = 50 * 10 ^ 9"

section \<open>The store of request objects\<close>

text \<open>
  A transaction request is a mutable object owned by the caller. The store maps addresses
  to request objects; \<open>next_addr\<close> is the next free address. Spreading
  \<^verbatim>\<open>{ ...transaction }\<close> allocates a new object with the same fields; spreading a
  reference that holds no object (\<^verbatim>\<open>undefined\<close>, \<^verbatim>\<open>null\<close>) gives an object with no
  fields. An assignment \<^verbatim>\<open>obj.f = v\<close> writes the object at its address.
\<close>

type_synonym addr = nat

record tx_request =
  tx_from :: jsval
  tx_to :: jsval
  tx_value :: jsval
  tx_data :: jsval
  tx_gasLimit :: jsval
  tx_gasPrice :: jsval
  tx_maxFeePerGas :: jsval
  tx_maxPriorityFeePerGas :: jsval

definition empty_request :: tx_request where
  "empty_request = \<lparr> tx_from = JUndefined, tx_to = JUndefined, tx_value = JUndefined,
     tx_data = JUndefined, tx_gasLimit = JUndefined, tx_gasPrice = JUndefined,
     tx_maxFeePerGas = JUndefined, tx_maxPriorityFeePerGas = JUndefined \<rparr>"

record heap =
  objs :: "addr \<Rightarrow> tx_request option"
  next_addr :: addr

definition heap_read :: "heap \<Rightarrow> addr \<Rightarrow> tx_request" where
  "heap_read h a = (case objs h a of Some t \<Rightarrow> t | None \<Rightarrow> empty_request)"

definition heap_write :: "heap \<Rightarrow> addr \<Rightarrow> (tx_request \<Rightarrow> tx_request) \<Rightarrow> heap" where
  "heap_write h a f = h\<lparr> objs := (objs h)(a := Some (f (heap_read h a))) \<rparr>"

definition heap_alloc :: "heap \<Rightarrow> tx_request \<Rightarrow> heap \<times> addr" where
  "heap_alloc h t = (h\<lparr> objs := (objs h)(next_addr h := Some t), next_addr := Suc (next_addr h) \<rparr>, next_addr h)"

text \<open>\<^verbatim>\<open>{ ...transaction }\<close>\<close>

definition spread :: "heap \<Rightarrow> addr \<Rightarrow> heap \<times> addr" where
  "spread h a = heap_alloc h (heap_read h a)"

section \<open>The collaborators\<close>

text \<open>
  The RPC client (\<^verbatim>\<open>this.provider\<close>), the wallet manager, the contract bindings and the
  constants of \<^verbatim>\<open>./common/constants\<close> are outside the simulator. Each call is a
  parameter: it answers with a value or throws (\<open>Inl\<close>). \<^verbatim>\<open>provider.estimateGas\<close> is
  awaited at two places of \<^verbatim>\<open>simulateTransaction\<close> and at one of \<^verbatim>\<open>estimateGas\<close>; the
  network may answer each differently, so the answer depends on the place as well as on the
  request. No collaborator writes to a request object it is given. Warnings written to the
  logger are not modelled.
\<close>

datatype estimate_site = PreFill | ReEstimate | Standalone

record fee_data =
  fd_gasPrice :: jsval
  fd_maxFeePerGas :: jsval
  fd_maxPriorityFeePerGas :: jsval

text \<open>
  A transaction response and a receipt, as the RPC client decodes them from the chain: the
  value and the gas price are 256-bit quantities, the gas used a 64-bit one, each handed over
  as a BigInt.
\<close>

record tx_response =
  tr_from :: jsval
  tr_to :: jsval
  tr_value :: "256 word"
  tr_gasPrice :: "256 word"

type_synonym log_entry = string

record tx_receipt =
  rc_gasUsed :: "64 word"
  rc_status :: "int option"
  rc_blockNumber :: int
  rc_logs :: "log_entry list"

text \<open>
  The result of \<^verbatim>\<open>Interface.parseTransaction\<close> on the ERC-20 ABI: the name of the
  function and its first two arguments. \<^verbatim>\<open>args[1]\<close> is read for \<^verbatim>\<open>transfer\<close> only,
  where it is the \<^verbatim>\<open>uint256\<close> amount.
\<close>

record decoded_call =
  dc_name :: string
  dc_args0 :: jsval
  dc_args1 :: int

record transfer_event =
  args_value :: int

datatype direction = Outgoing | Incoming

text \<open>
  \<^verbatim>\<open>fromBlock ? parseInt(fromBlock) : 'latest'\<close>: the number that \<^verbatim>\<open>parseInt\<close> makes of
  the parameter is kept symbolic.
\<close>

datatype block_tag = Latest | ParseInt jsval

record env =
  wallet_isConnected :: bool
  wallet_getAddress :: "js_error + jsval"
  provider_estimateGas :: "estimate_site \<Rightarrow> tx_request \<Rightarrow> js_error + int"
  provider_getFeeData :: "js_error + fee_data"
  provider_getBlockNumber :: "js_error + int"
  provider_call :: "tx_request \<Rightarrow> int \<Rightarrow> js_error + string"
  provider_getTransactionCount :: "jsval \<Rightarrow> js_error + nat"
  provider_network_chainId :: "js_error + jsval"
  provider_getTransaction :: "string \<Rightarrow> js_error + tx_response option"
  provider_getTransactionReceipt :: "string \<Rightarrow> js_error + tx_receipt option"
  ERC20_TRANSFER_SIGNATURE :: string
  parseTransaction :: "jsval \<Rightarrow> js_error + decoded_call option"
  new_Contract :: "jsval \<Rightarrow> js_error + unit"
  contract_symbol :: "jsval \<Rightarrow> js_error + string"
  contract_decimals :: "jsval \<Rightarrow> js_error + nat"
  contract_queryFilter :: "jsval \<Rightarrow> direction \<Rightarrow> jsval \<Rightarrow> block_tag \<Rightarrow> block_tag \<Rightarrow> js_error + transfer_event list"
  isAddress :: "jsval \<Rightarrow> bool"
  tokenAddresses :: "(string \<times> jsval) list"
  formatUnits_decimals_error :: "nat \<Rightarrow> js_error"
  formatUnits_overflow_error :: "int \<Rightarrow> js_error"

text \<open>
  \<^verbatim>\<open>formatUnits(value, decimals)\<close> with the checks of the library: it throws for more than
  80 decimals, and then for a value outside the signed 512-bit range, from \<open>- 2 ^ 511\<close> up
  to but not including \<open>2 ^ 511\<close>. The error objects it throws are parameters.
  \<^verbatim>\<open>formatEther\<close> is the case of 18 decimals.
\<close>

definition formatUnits :: "env \<Rightarrow> int \<Rightarrow> nat \<Rightarrow> js_error + string" where
  "formatUnits env v d =
     (if d > 80 then Inl (formatUnits_decimals_error env d)
      else if v < - (2 ^ 511) \<or> 2 ^ 511 \<le> v then Inl (formatUnits_overflow_error env v)
      else Inr (fixed_toString v d))"

definition formatEther :: "env \<Rightarrow> int \<Rightarrow> js_error + string" where
  "formatEther env v = formatUnits env v 18"

section \<open>estimateGas\<close>

text \<open>
  \<^verbatim>\<open>if (!tx.from && walletManager.isWalletConnected('polygon')) tx.from = walletManager.getAddress('polygon')\<close>,
  the first step of both \<^verbatim>\<open>simulateTransaction\<close> and \<^verbatim>\<open>estimateGas\<close>, on their copy.
\<close>

definition fill_from :: "env \<Rightarrow> heap \<Rightarrow> addr \<Rightarrow> (js_error + unit) \<times> heap" where
  "fill_from env h c =
     (if \<not> truthy (tx_from (heap_read h c)) \<and> wallet_isConnected env then
        (case wallet_getAddress env of
           Inl e \<Rightarrow> (Inl e, h)
         | Inr a \<Rightarrow> (Inr (), heap_write h c (\<lambda>t. t\<lparr> tx_from := a \<rparr>)))
      else (Inr (), h))"

text \<open>The 20 per cent buffer: \<^verbatim>\<open>BigInt(gasEstimate) * 120n / 100n\<close>.\<close>

definition gas_buffer :: "int \<Rightarrow> int" where
  "gas_buffer gasEstimate = bigint_div (gasEstimate * 120) 100"

record gas_estimate =
  gasEstimate :: string
  gasLimit :: string
  recommendedGasLimit :: string

text \<open>The body of the \<^verbatim>\<open>try\<close> block of \<^verbatim>\<open>estimateGas\<close>.\<close>

definition estimateGas_try :: "env \<Rightarrow> heap \<Rightarrow> addr \<Rightarrow> (js_error + gas_estimate) \<times> heap" where
  "estimateGas_try env h transaction =
     (let (h0, txToEstimate) = spread h transaction in
      case fill_from env h0 txToEstimate of
        (Inl e, h1) \<Rightarrow> (Inl e, h1)
      | (Inr _, h1) \<Rightarrow>
          (case provider_estimateGas env Standalone (heap_read h1 txToEstimate) of
             Inl e \<Rightarrow> (Inl e, h1)
           | Inr estimate \<Rightarrow>
               (let limit = gas_buffer estimate in
                (Inr \<lparr> gasEstimate = bigint_toString estimate,
                       gasLimit = bigint_toString limit,
                       recommendedGasLimit = bigint_toString limit \<rparr>, h1))))"

definition estimateGas :: "env \<Rightarrow> heap \<Rightarrow> addr \<Rightarrow> (js_error + gas_estimate) \<times> heap" where
  "estimateGas env h transaction =
     (case estimateGas_try env h transaction of
        (Inr r, h1) \<Rightarrow> (Inr r, h1)
      | (Inl error, h1) \<Rightarrow>
          (Inl (createTransactionError TRANSACTION_FAILED
                  (''Gas estimation failed: '' @ e_message error)
                  [(''transaction'', DObject transaction)]), h1))"

section \<open>simulateTransaction\<close>

record gas_cost =
  wei :: string
  gwei :: string
  ether :: string

record token_transfer =
  tt_token :: jsval
  tt_symbol :: string
  tt_from :: jsval
  tt_to :: jsval
  tt_amount :: string
  tt_rawAmount :: string
  tt_type :: string

text \<open>
  \<^verbatim>\<open>constructorArgs\<close> is what \<^verbatim>\<open>extractConstructorArgs\<close> returns: the empty array,
  \<^verbatim>\<open>{raw, decoded}\<close>, or \<^verbatim>\<open>{raw: 'Unknown', error}\<close>.
\<close>

datatype constructor_args =
  NoArgs
| RawArgs string string
| ArgsError string string

record contract_interaction =
  ci_type :: string
  ci_bytecode :: jsval
  ci_estimatedAddress :: string
  ci_constructorArgs :: constructor_args

text \<open>
  The result object. \<open>errorMessage = None\<close> is \<^verbatim>\<open>null\<close>. For \<open>stateChanges\<close> and
  \<open>gasCost\<close>, \<open>None\<close> says that the object has no such key.
\<close>

record simulation_result =
  success :: bool
  gasUsed :: string
  logs :: "log_entry list"
  tokenTransfers :: "token_transfer list"
  contractInteractions :: "contract_interaction list"
  errorMessage :: "string option"
  stateChanges :: "string list option"
  gasCost :: "gas_cost option"

subsection \<open>Filling the copy (lines 764 to 796)\<close>

definition fill_gasLimit :: "env \<Rightarrow> heap \<Rightarrow> addr \<Rightarrow> heap" where
  "fill_gasLimit env h c =
     (if \<not> truthy (tx_gasLimit (heap_read h c)) then
        (case provider_estimateGas env PreFill (heap_read h c) of
           Inr estimate \<Rightarrow> heap_write h c (\<lambda>t. t\<lparr> tx_gasLimit := JBig (gas_buffer estimate) \<rparr>)
         | Inl error \<Rightarrow> heap_write h c (\<lambda>t. t\<lparr> tx_gasLimit := JBig 300000 \<rparr>))
      else h)"

definition fill_fees :: "env \<Rightarrow> heap \<Rightarrow> addr \<Rightarrow> (js_error + unit) \<times> heap" where
  "fill_fees env h c =
     (if \<not> truthy (tx_gasPrice (heap_read h c)) \<and> \<not> truthy (tx_maxFeePerGas (heap_read h c)) then
        (case provider_getFeeData env of
           Inl e \<Rightarrow> (Inl e, h)
         | Inr feeData \<Rightarrow>
             if truthy (fd_maxFeePerGas feeData) then
               (case BigInt (fd_maxFeePerGas feeData) of
                  Inl e \<Rightarrow> (Inl e, h)
                | Inr m \<Rightarrow>
                    (let h1 = heap_write h c (\<lambda>t. t\<lparr> tx_maxFeePerGas := JBig m \<rparr>) in
                     case BigInt (fd_maxPriorityFeePerGas feeData) of
                       Inl e \<Rightarrow> (Inl e, h1)
                     | Inr p \<Rightarrow> (Inr (), heap_write h1 c (\<lambda>t. t\<lparr> tx_maxPriorityFeePerGas := JBig p \<rparr>))))
             else
               (case BigInt (fd_gasPrice feeData) of
                  Inl e \<Rightarrow> (Inl e, h)
                | Inr g \<Rightarrow> (Inr (), heap_write h c (\<lambda>t. t\<lparr> tx_gasPrice := JBig g \<rparr>))))
      else (Inr (), h))"

text \<open>The three fill-ins in sequence, on the copy at \<open>c\<close>.\<close>

definition fill_request :: "env \<Rightarrow> heap \<Rightarrow> addr \<Rightarrow> (js_error + unit) \<times> heap" where
  "fill_request env h c =
     (case fill_from env h c of
        (Inl e, h1) \<Rightarrow> (Inl e, h1)
      | (Inr _, h1) \<Rightarrow> fill_fees env (fill_gasLimit env h1 c) c)"

subsection \<open>The speculative call and the gas re-estimate (lines 798 to 851)\<close>

definition initial_result :: simulation_result where
  "initial_result = \<lparr> success = True, gasUsed = ''0'', logs = [], tokenTransfers = [],
     contractInteractions = [], errorMessage = None, stateChanges = Some [], gasCost = None \<rparr>"

definition call_errorMessage :: "js_error \<Rightarrow> string" where
  "call_errorMessage error =
     (if truthy (e_data error) \<and> js_includes (js_String (e_data error)) ''revert''
      then ''Transaction would revert: '' @ js_String (e_data error)
      else e_message error)"

definition speculative_call :: "env \<Rightarrow> tx_request \<Rightarrow> int \<Rightarrow> simulation_result \<Rightarrow> simulation_result" where
  "speculative_call env tx blockNumber r =
     (case provider_call env tx blockNumber of
        Inr _ \<Rightarrow> r\<lparr> success := True \<rparr>
      | Inl error \<Rightarrow> r\<lparr> success := False, errorMessage := Some (call_errorMessage error) \<rparr>)"

text \<open>\<^verbatim>\<open>txToSimulate.gasLimit?.toString() || '0'\<close>\<close>

fun gasLimit_toString_or_0 :: "jsval \<Rightarrow> string" where
  "gasLimit_toString_or_0 JUndefined = ''0''"
| "gasLimit_toString_or_0 JNull = ''0''"
| "gasLimit_toString_or_0 (JStr s) = (if s = [] then ''0'' else s)"
| "gasLimit_toString_or_0 (JBig n) = bigint_toString n"

text \<open>\<^verbatim>\<open>!simulationResult.errorMessage\<close>\<close>

fun no_errorMessage :: "string option \<Rightarrow> bool" where
  "no_errorMessage None = True"
| "no_errorMessage (Some m) = (m = [])"

definition reestimate_gas :: "env \<Rightarrow> tx_request \<Rightarrow> simulation_result \<Rightarrow> simulation_result" where
  "reestimate_gas env tx r =
     (case provider_estimateGas env ReEstimate tx of
        Inr estimate \<Rightarrow> r\<lparr> gasUsed := bigint_toString estimate \<rparr>
      | Inl error \<Rightarrow>
          (let r1 = r\<lparr> gasUsed := gasLimit_toString_or_0 (tx_gasLimit tx) \<rparr> in
           if no_errorMessage (errorMessage r1)
           then r1\<lparr> errorMessage := Some (''Gas estimation failed: '' @ e_message error) \<rparr>
           else r1))"

subsection \<open>detectTokenTransfers and detectERC20Transfer\<close>

text \<open>
  The token details: \<^verbatim>\<open>'Unknown'\<close> and 18 unless the contract answers. A failure to
  construct the binding leaves both defaults; a rejected \<^verbatim>\<open>symbol()\<close> or
  \<^verbatim>\<open>decimals()\<close> leaves its own default. Whatever the body of
  \<^verbatim>\<open>detectERC20Transfer\<close> throws, a failed decoding or a refused \<^verbatim>\<open>formatUnits\<close>, is
  caught there and leaves the result as it was.
\<close>

definition token_details :: "env \<Rightarrow> jsval \<Rightarrow> string \<times> nat" where
  "token_details env tokenAddress =
     (case new_Contract env tokenAddress of
        Inl error \<Rightarrow> (''Unknown'', 18)
      | Inr _ \<Rightarrow>
          (case contract_symbol env tokenAddress of Inl _ \<Rightarrow> ''Unknown'' | Inr s \<Rightarrow> s,
           case contract_decimals env tokenAddress of Inl _ \<Rightarrow> 18 | Inr d \<Rightarrow> d))"

definition detectERC20Transfer :: "env \<Rightarrow> tx_request \<Rightarrow> simulation_result \<Rightarrow> simulation_result" where
  "detectERC20Transfer env transaction simulationResult =
     (let tokenAddress = tx_to transaction in
      case parseTransaction env (tx_data transaction) of
        Inl error \<Rightarrow> simulationResult
      | Inr None \<Rightarrow> simulationResult
      | Inr (Some decodedData) \<Rightarrow>
          if dc_name decodedData = ''transfer'' then
            (let to = dc_args0 decodedData;
                 amount = dc_args1 decodedData;
                 (symbol, decimals) = token_details env tokenAddress
             in case formatUnits env amount decimals of
                  Inl error \<Rightarrow> simulationResult
                | Inr formatted \<Rightarrow>
                    simulationResult\<lparr> tokenTransfers := tokenTransfers simulationResult @
                      [\<lparr> tt_token = tokenAddress, tt_symbol = symbol, tt_from = tx_from transaction,
                         tt_to = to, tt_amount = formatted,
                         tt_rawAmount = bigint_toString amount, tt_type = ''ERC20'' \<rparr>] \<rparr>)
          else simulationResult)"

definition detectTokenTransfers :: "env \<Rightarrow> tx_request \<Rightarrow> simulation_result \<Rightarrow> js_error + simulation_result" where
  "detectTokenTransfers env transaction simulationResult =
     (if truthy (tx_to transaction) \<and> truthy (tx_data transaction) then
        (case tx_data transaction of
           JStr d \<Rightarrow>
             if startsWith d (ERC20_TRANSFER_SIGNATURE env)
             then Inr (detectERC20Transfer env transaction simulationResult)
             else Inr simulationResult
         | _ \<Rightarrow> Inl (TypeError ''transaction.data.startsWith is not a function''))
      else Inr simulationResult)"

subsection \<open>Contract creation (lines 856 to 878) and extractConstructorArgs\<close>

text \<open>\<^verbatim>\<open>s.slice(start)\<close>: a negative start counts from the end.\<close>

definition js_slice :: "string \<Rightarrow> int \<Rightarrow> string" where
  "js_slice s start =
     (if start < 0 then drop (nat (max (int (length s) + start) 0)) s else drop (nat start) s)"

definition extractConstructorArgs :: "jsval \<Rightarrow> constructor_args" where
  "extractConstructorArgs bytecode =
     (if \<not> truthy bytecode then NoArgs
      else case bytecode of
        JStr s \<Rightarrow>
          if length s \<le> 2 then NoArgs
          else RawArgs (js_slice s (int (length s) - 43)) ''Constructor arguments detection requires ABI''
      | _ \<Rightarrow> ArgsError ''Unknown'' ''bytecode.slice is not a function'')"

text \<open>
  \<^verbatim>\<open>Buffer.from(s, 'hex')\<close> decodes pairs of hexadecimal digits and stops at the first
  pair that is not one; \<^verbatim>\<open>buf.slice(-20)\<close> keeps the last 20 bytes;
  \<^verbatim>\<open>buf.toString('hex')\<close> writes two lower-case digits a byte.
\<close>

fun hex_decode :: "string \<Rightarrow> nat list" where
  "hex_decode (a # b # cs) =
     (case digit_val a of
        None \<Rightarrow> []
      | Some x \<Rightarrow> (case digit_val b of None \<Rightarrow> [] | Some y \<Rightarrow> (16 * x + y) # hex_decode cs))"
| "hex_decode cs = []"

definition hex_encode :: "nat list \<Rightarrow> string" where
  "hex_encode bs = concat (map (\<lambda>b. [digit_char (b div 16), digit_char (b mod 16)]) bs)"

definition toLowerCase :: "string \<Rightarrow> string" where
  "toLowerCase s =
     map (\<lambda>c. let n = (of_char c :: nat) in if 65 \<le> n \<and> n \<le> 90 then char_of (n + 32) else c) s"

definition display_bytecode :: "jsval \<Rightarrow> jsval" where
  "display_bytecode creationCode =
     (case creationCode of
        JStr s \<Rightarrow> if length s > 64 then JStr (take 64 s @ ''...'') else JStr s
      | v \<Rightarrow> v)"

definition contract_creation :: "env \<Rightarrow> tx_request \<Rightarrow> simulation_result \<Rightarrow> js_error + simulation_result" where
  "contract_creation env tx r =
     (if \<not> truthy (tx_to tx) \<and> truthy (tx_data tx) then
        (let creationCode = tx_data tx in
         case provider_getTransactionCount env (tx_from tx) of
           Inl e \<Rightarrow> Inl e
         | Inr nonce \<Rightarrow>
             (case provider_network_chainId env of
                Inl e \<Rightarrow> Inl e
              | Inr chainId \<Rightarrow>
                  (case tx_from tx of
                     JStr sender \<Rightarrow>
                       (let addressBuffer = hex_decode (js_String chainId @ toLowerCase (drop 2 sender)
                                              @ pad_zeros 64 (hex_digits nonce));
                            estimatedAddress = ''0x'' @ hex_encode (drop (length addressBuffer - 20) addressBuffer)
                        in Inr (r\<lparr> contractInteractions := contractInteractions r @
                              [\<lparr> ci_type = ''creation'', ci_bytecode = display_bytecode creationCode,
                                 ci_estimatedAddress = estimatedAddress,
                                 ci_constructorArgs = extractConstructorArgs creationCode \<rparr>] \<rparr>))
                   | JUndefined \<Rightarrow>
                       Inl (TypeError (''Cannot read properties of undefined (reading '' @ [CHR 0x27]
                                         @ ''slice'' @ [CHR 0x27] @ '')''))
                   | JNull \<Rightarrow>
                       Inl (TypeError (''Cannot read properties of null (reading '' @ [CHR 0x27]
                                         @ ''slice'' @ [CHR 0x27] @ '')''))
                   | JBig n \<Rightarrow> Inl (TypeError ''txToSimulate.from.slice is not a function''))))
      else Inr r)"

subsection \<open>Gas cost (lines 880 to 888)\<close>

definition add_gasCost :: "env \<Rightarrow> tx_request \<Rightarrow> simulation_result \<Rightarrow> js_error + simulation_result" where
  "add_gasCost env tx r =
     (let price = js_or (tx_gasPrice tx) (js_or (tx_maxFeePerGas tx) (JBig parseUnits_50_gwei)) in
      case BigInt (JStr (gasUsed r)) of
        Inl e \<Rightarrow> Inl e
      | Inr used \<Rightarrow>
          (case BigInt price of
             Inl e \<Rightarrow> Inl e
           | Inr p \<Rightarrow>
               (let cost = used * p in
                case formatUnits env cost gwei_decimals of
                  Inl e \<Rightarrow> Inl e
                | Inr in_gwei \<Rightarrow>
                    (case formatEther env cost of
                       Inl e \<Rightarrow> Inl e
                     | Inr in_ether \<Rightarrow>
                         Inr (r\<lparr> gasCost := Some \<lparr> wei = bigint_toString cost,
                                                   gwei = in_gwei, ether = in_ether \<rparr> \<rparr>)))))"

subsection \<open>The operation\<close>

text \<open>
  Lines 798 to 890, which only read the filled copy \<open>tx\<close>. The second copy
  \<^verbatim>\<open>callTx\<close>, made for the RPC client and dropped after the call, is its value.
\<close>

definition simulate_run :: "env \<Rightarrow> tx_request \<Rightarrow> js_error + simulation_result" where
  "simulate_run env tx =
     (case provider_getBlockNumber env of
        Inl e \<Rightarrow> Inl e
      | Inr blockNumber \<Rightarrow>
          (let r1 = speculative_call env tx blockNumber initial_result;
               r2 = reestimate_gas env tx r1
           in case detectTokenTransfers env tx r2 of
                Inl e \<Rightarrow> Inl e
              | Inr r3 \<Rightarrow>
                  (case contract_creation env tx r3 of
                     Inl e \<Rightarrow> Inl e
                   | Inr r4 \<Rightarrow> add_gasCost env tx r4)))"

text \<open>The body of the outer \<^verbatim>\<open>try\<close> block.\<close>

definition simulateTransaction_try :: "env \<Rightarrow> heap \<Rightarrow> addr \<Rightarrow> (js_error + simulation_result) \<times> heap" where
  "simulateTransaction_try env h transaction =
     (let (h0, txToSimulate) = spread h transaction in
      case fill_request env h0 txToSimulate of
        (Inl e, h1) \<Rightarrow> (Inl e, h1)
      | (Inr _, h1) \<Rightarrow> (simulate_run env (heap_read h1 txToSimulate), h1))"

text \<open>The object returned by the outer \<^verbatim>\<open>catch\<close>.\<close>

definition fallback_result :: "js_error \<Rightarrow> simulation_result" where
  "fallback_result error = \<lparr> success = False, gasUsed = ''0'', logs = [], tokenTransfers = [],
     contractInteractions = [], errorMessage = Some (e_message error), stateChanges = None,
     gasCost = None \<rparr>"

definition simulateTransaction :: "env \<Rightarrow> heap \<Rightarrow> addr \<Rightarrow> (js_error + simulation_result) \<times> heap" where
  "simulateTransaction env h transaction =
     (case simulateTransaction_try env h transaction of
        (Inr r, h1) \<Rightarrow> (Inr r, h1)
      | (Inl error, h1) \<Rightarrow> (Inr (fallback_result error), h1))"

section \<open>analyzeTransaction\<close>

datatype block_field = BlockNumber int | BlockMarker string

record analysis =
  an_hash :: string
  an_from :: jsval
  an_to :: jsval
  an_value_wei :: string
  an_value_ether :: string
  an_gasUsed :: string
  an_gasPrice_wei :: string
  an_gasPrice_gwei :: string
  an_status :: string
  an_blockNumber :: block_field
  an_timestamp :: string
  an_logs :: nat
  an_gasCost :: "gas_cost option"

text \<open>\<^verbatim>\<open>receipt.status ? 'Success' : 'Failed'\<close>\<close>

fun status_text :: "int option \<Rightarrow> string" where
  "status_text None = ''Failed''"
| "status_text (Some n) = (if n = 0 then ''Failed'' else ''Success'')"

text \<open>
  The body of the \<^verbatim>\<open>try\<close> block. The object literal is evaluated field by field, so the
  two formattings of the value and of the gas price come before those of the gas cost.
\<close>

definition analyzeTransaction_try :: "env \<Rightarrow> string \<Rightarrow> js_error + analysis" where
  "analyzeTransaction_try env txHash =
     (case provider_getTransaction env txHash of
        Inl e \<Rightarrow> Inl e
      | Inr None \<Rightarrow> Inl (new_Error (''Transaction not found: '' @ txHash))
      | Inr (Some tx) \<Rightarrow>
          (case provider_getTransactionReceipt env txHash of
             Inl e \<Rightarrow> Inl e
           | Inr receipt \<Rightarrow>
               (case formatEther env (uint (tr_value tx)) of
                  Inl e \<Rightarrow> Inl e
                | Inr value_ether \<Rightarrow>
                    (case formatUnits env (uint (tr_gasPrice tx)) gwei_decimals of
                       Inl e \<Rightarrow> Inl e
                     | Inr price_gwei \<Rightarrow>
                         (let result = \<lparr> an_hash = txHash,
                                 an_from = tr_from tx,
                                 an_to = js_or (tr_to tx) (JStr ''Contract Creation''),
                                 an_value_wei = bigint_toString (uint (tr_value tx)),
                                 an_value_ether = value_ether,
                                 an_gasUsed = (case receipt of Some rc \<Rightarrow> bigint_toString (uint (rc_gasUsed rc)) | None \<Rightarrow> ''Pending''),
                                 an_gasPrice_wei = bigint_toString (uint (tr_gasPrice tx)),
                                 an_gasPrice_gwei = price_gwei,
                                 an_status = (case receipt of Some rc \<Rightarrow> status_text (rc_status rc) | None \<Rightarrow> ''Pending''),
                                 an_blockNumber = (case receipt of Some rc \<Rightarrow> BlockNumber (rc_blockNumber rc) | None \<Rightarrow> BlockMarker ''Pending''),
                                 an_timestamp = ''Unknown'',
                                 an_logs = (case receipt of Some rc \<Rightarrow> length (rc_logs rc) | None \<Rightarrow> 0),
                                 an_gasCost = None \<rparr>
                          in case receipt of
                               None \<Rightarrow> Inr result
                             | Some rc \<Rightarrow>
                                 (let cost = uint (rc_gasUsed rc) * uint (tr_gasPrice tx) in
                                  case formatUnits env cost gwei_decimals of
                                    Inl e \<Rightarrow> Inl e
                                  | Inr cost_gwei \<Rightarrow>
                                      (case formatEther env cost of
                                         Inl e \<Rightarrow> Inl e
                                       | Inr cost_ether \<Rightarrow>
                                           Inr (result\<lparr> an_gasCost := Some \<lparr> wei = bigint_toString cost,
                                                  gwei = cost_gwei, ether = cost_ether \<rparr> \<rparr>))))))))"

definition analyzeTransaction :: "env \<Rightarrow> string \<Rightarrow> js_error + analysis" where
  "analyzeTransaction env txHash =
     (case analyzeTransaction_try env txHash of
        Inr result \<Rightarrow> Inr result
      | Inl error \<Rightarrow>
          Inl (createTransactionError TRANSACTION_FAILED (''Analysis failed: '' @ e_message error)
                 [(''txHash'', DValue (JStr txHash))]))"

section \<open>getTokenBalanceChanges\<close>

record change_entry =
  ch_token :: jsval
  ch_symbol :: string
  ch_change :: string
  ch_changeType :: string
  ch_fromBlock :: block_tag
  ch_toBlock :: block_tag
  ch_outgoing :: nat
  ch_incoming :: nat

record balance_report =
  rp_address :: jsval
  rp_fromBlock :: block_tag
  rp_toBlock :: block_tag
  rp_changes :: "change_entry list"

definition block_param :: "jsval \<Rightarrow> block_tag" where
  "block_param b = (if truthy b then ParseInt b else Latest)"

text \<open>The two loops over the events: \<^verbatim>\<open>totalChange -= BigInt(event.args.value)\<close> and \<^verbatim>\<open>+=\<close>.\<close>

fun subtract_outgoing :: "transfer_event list \<Rightarrow> int \<Rightarrow> int" where
  "subtract_outgoing [] totalChange = totalChange"
| "subtract_outgoing (event # events) totalChange = subtract_outgoing events (totalChange - args_value event)"

fun add_incoming :: "transfer_event list \<Rightarrow> int \<Rightarrow> int" where
  "add_incoming [] totalChange = totalChange"
| "add_incoming (event # events) totalChange = add_incoming events (totalChange + args_value event)"

text \<open>
  The net balance delta in the words of the specification: the sum of the incoming amounts
  minus the sum of the outgoing ones, over the integers. The loops above are compared with it.
\<close>

definition net_change :: "transfer_event list \<Rightarrow> transfer_event list \<Rightarrow> int" where
  "net_change eventsFrom eventsTo = sum_list (map args_value eventsTo) - sum_list (map args_value eventsFrom)"

text \<open>The body of the \<^verbatim>\<open>try\<close> block for one token; \<open>changes\<close> is the array built so far.\<close>

definition scan_token ::
  "env \<Rightarrow> jsval \<Rightarrow> block_tag \<Rightarrow> block_tag \<Rightarrow> string \<times> jsval \<Rightarrow> change_entry list \<Rightarrow> js_error + change_entry list" where
  "scan_token env address fromBlock toBlock entry changes =
     (let symbol = fst entry; tokenAddress = snd entry in
      case new_Contract env tokenAddress of
        Inl e \<Rightarrow> Inl e
      | Inr _ \<Rightarrow>
          (let decimals = (case contract_decimals env tokenAddress of Inl _ \<Rightarrow> 18 | Inr d \<Rightarrow> d) in
           case contract_queryFilter env tokenAddress Outgoing address fromBlock toBlock of
             Inl e \<Rightarrow> Inl e
           | Inr eventsFrom \<Rightarrow>
               (case contract_queryFilter env tokenAddress Incoming address fromBlock toBlock of
                  Inl e \<Rightarrow> Inl e
                | Inr eventsTo \<Rightarrow>
                    (let totalChange = add_incoming eventsTo (subtract_outgoing eventsFrom 0) in
                     if totalChange \<noteq> 0 then
                       (case formatUnits env totalChange decimals of
                          Inl e \<Rightarrow> Inl e
                        | Inr changeFormatted \<Rightarrow>
                            Inr (changes @
                              [\<lparr> ch_token = tokenAddress, ch_symbol = symbol,
                                 ch_change = changeFormatted,
                                 ch_changeType = (if totalChange > 0 then ''increase'' else ''decrease''),
                                 ch_fromBlock = fromBlock, ch_toBlock = toBlock,
                                 ch_outgoing = length eventsFrom, ch_incoming = length eventsTo \<rparr>]))
                     else Inr changes))))"

text \<open>The loop over the registry: a token whose body throws leaves \<open>changes\<close> as it was.\<close>

fun scan_tokens ::
  "env \<Rightarrow> jsval \<Rightarrow> block_tag \<Rightarrow> block_tag \<Rightarrow> (string \<times> jsval) list \<Rightarrow> change_entry list \<Rightarrow> change_entry list" where
  "scan_tokens env address fromBlock toBlock [] changes = changes"
| "scan_tokens env address fromBlock toBlock (entry # tokens) changes =
     scan_tokens env address fromBlock toBlock tokens
       (case scan_token env address fromBlock toBlock entry changes of
          Inr changes1 \<Rightarrow> changes1
        | Inl error \<Rightarrow> changes)"

definition getTokenBalanceChanges :: "env \<Rightarrow> jsval \<Rightarrow> jsval \<Rightarrow> jsval \<Rightarrow> js_error + balance_report" where
  "getTokenBalanceChanges env address fromBlock toBlock =
     (if \<not> truthy address \<or> \<not> isAddress env address then
        Inl (createTransactionError INVALID_ADDRESS ''Invalid address provided'' [(''address'', DValue address)])
      else
        (let fromBlock1 = block_param fromBlock;
             toBlock1 = block_param toBlock;
             changes = scan_tokens env address fromBlock1 toBlock1 (tokenAddresses env) []
         in Inr \<lparr> rp_address = address, rp_fromBlock = fromBlock1, rp_toBlock = toBlock1,
                  rp_changes = changes \<rparr>))"

section \<open>Example inputs\<close>

text \<open>
  Concrete collaborators and requests on which the theorems below are instantiated. In
  \<open>example_env\<close> a wallet is connected, every RPC call answers, the token at
  \<^verbatim>\<open>0xT0KEN\<close> has symbol \<^verbatim>\<open>TEST\<close> and 18 decimals, and the registry holds one token
  whose address is misconfigured and one whose transfers cancel out. The other environments
  change one answer each.
\<close>

definition example_request :: tx_request where
  "example_request = empty_request\<lparr> tx_to := JStr ''0xT0KEN'', tx_data := JStr ''0xa9059cbb0001'' \<rparr>"

definition example_heap :: heap where
  "example_heap = \<lparr> objs = (\<lambda>a. if a = 0 then Some example_request else None), next_addr = 1 \<rparr>"

definition example_env :: env where
  "example_env = \<lparr>
     wallet_isConnected = True,
     wallet_getAddress = Inr (JStr ''0xA11CE''),
     provider_estimateGas = (\<lambda>site tx. Inr 21003),
     provider_getFeeData = Inr \<lparr> fd_gasPrice = JBig 30000000000, fd_maxFeePerGas = JNull, fd_maxPriorityFeePerGas = JNull \<rparr>,
     provider_getBlockNumber = Inr 100,
     provider_call = (\<lambda>tx blockNumber. Inr ''0x''),
     provider_getTransactionCount = (\<lambda>a. Inr 7),
     provider_network_chainId = Inr (JBig 137),
     provider_getTransaction = (\<lambda>txHash. Inr (Some \<lparr> tr_from = JStr ''0xA11CE'', tr_to = JStr ''0xB0B'', tr_value = 1, tr_gasPrice = 30000000000 \<rparr>)),
     provider_getTransactionReceipt = (\<lambda>txHash. Inr None),
     ERC20_TRANSFER_SIGNATURE = ''0xa9059cbb'',
     parseTransaction = (\<lambda>data. Inr (Some \<lparr> dc_name = ''transfer'', dc_args0 = JStr ''0xB0B'', dc_args1 = 500 * 10 ^ 18 \<rparr>)),
     new_Contract = (\<lambda>a. if a = JStr ''misconfigured'' then Inl (new_Error ''invalid address'') else Inr ()),
     contract_symbol = (\<lambda>a. Inr ''TEST''),
     contract_decimals = (\<lambda>a. Inr 18),
     contract_queryFilter = (\<lambda>token dir address fromBlock toBlock.
        if token = JStr ''0xU5DC'' then
          (case dir of Outgoing \<Rightarrow> Inr [\<lparr> args_value = 5 \<rparr>]
                     | Incoming \<Rightarrow> Inr [\<lparr> args_value = 2 \<rparr>, \<lparr> args_value = 3 \<rparr>])
        else
          (case dir of Outgoing \<Rightarrow> Inr (replicate 3 \<lparr> args_value = 1 \<rparr>)
                     | Incoming \<Rightarrow> Inr (replicate 10 \<lparr> args_value = 1000000000000000001 \<rparr>))),
     isAddress = (\<lambda>v. v = JStr ''0xA11CE''),
     tokenAddresses = [(''TEST'', JStr ''0xT0KEN''), (''BAD'', JStr ''misconfigured''), (''USDC'', JStr ''0xU5DC'')],
     formatUnits_decimals_error = (\<lambda>d. JsError ''TypeError'' (Some ''INVALID_ARGUMENT'')
        ''invalid FixedNumber decimals (too large)'' JUndefined []),
     formatUnits_overflow_error = (\<lambda>v. JsError ''Error'' (Some ''NUMERIC_FAULT'') ''overflow'' JUndefined []) \<rparr>"

definition env_estimate_fails :: env where
  "env_estimate_fails = example_env\<lparr> provider_estimateGas := (\<lambda>site tx. Inl (new_Error ''network down'')) \<rparr>"

definition supplied_request :: tx_request where
  "supplied_request = empty_request\<lparr> tx_from := JStr ''0xA11CE'', tx_to := JStr ''0xB0B'',
     tx_value := JStr ''1'', tx_gasLimit := JBig 21000, tx_gasPrice := JBig 30000000000 \<rparr>"

definition supplied_heap :: heap where
  "supplied_heap = \<lparr> objs = (\<lambda>a. if a = 0 then Some supplied_request else None), next_addr = 1 \<rparr>"

definition env_overrun :: env where
  "env_overrun = example_env\<lparr> provider_estimateGas := (\<lambda>site tx. Inr 50000) \<rparr>"

definition env_unreachable :: env where
  "env_unreachable = example_env\<lparr> provider_getBlockNumber := Inl (new_Error ''network unreachable'') \<rparr>"

definition revert_error :: js_error where
  "revert_error = JsError ''Error'' (Some ''CALL_EXCEPTION'') ''execution reverted''
     (JStr ''revert: balance too low'') []"

definition env_revert :: env where
  "env_revert = example_env\<lparr> provider_call := (\<lambda>tx blockNumber. Inl revert_error) \<rparr>"

definition example_copy :: tx_request where
  "example_copy = example_request\<lparr> tx_from := JStr ''0xA11CE'', tx_gasLimit := JBig 25203,
     tx_gasPrice := JBig 30000000000 \<rparr>"

definition example_result :: simulation_result where
  "example_result = \<lparr> success = True, gasUsed = ''21003'', logs = [],
     tokenTransfers = [\<lparr> tt_token = JStr ''0xT0KEN'', tt_symbol = ''TEST'',
       tt_from = JStr ''0xA11CE'', tt_to = JStr ''0xB0B'', tt_amount = ''500.0'',
       tt_rawAmount = ''500000000000000000000'', tt_type = ''ERC20'' \<rparr>],
     contractInteractions = [], errorMessage = None, stateChanges = Some [],
     gasCost = Some \<lparr> wei = ''630090000000000'', gwei = ''630090.0'', ether = ''0.00063009'' \<rparr> \<rparr>"

definition example_heap_after :: heap where
  "example_heap_after = \<lparr> objs = (\<lambda>a. if a = 0 then Some example_request
                     else if a = 1 then Some example_copy else None), next_addr = 2 \<rparr>"

definition env_receipt_fails :: env where
  "env_receipt_fails = example_env\<lparr> provider_getTransactionReceipt := (\<lambda>txHash. Inl (new_Error ''timeout'')) \<rparr>"

definition env_unknown_tx :: env where
  "env_unknown_tx = example_env\<lparr> provider_getTransaction := (\<lambda>txHash. Inr None) \<rparr>"

definition example_report :: balance_report where
  "example_report = \<lparr> rp_address = JStr ''0xA11CE'', rp_fromBlock = ParseInt (JStr ''100''),
     rp_toBlock = Latest,
     rp_changes = [\<lparr> ch_token = JStr ''0xT0KEN'', ch_symbol = ''TEST'',
       ch_change = ''10.000000000000000007'', ch_changeType = ''increase'',
       ch_fromBlock = ParseInt (JStr ''100''), ch_toBlock = Latest,
       ch_outgoing = 3, ch_incoming = 10 \<rparr>] \<rparr>"

text \<open>A token that reports 81 decimals; its transfers are those of the example.\<close>

definition env_81_decimals :: env where
  "env_81_decimals = example_env\<lparr> contract_decimals := (\<lambda>a. Inr 81),
     tokenAddresses := [(''TEST'', JStr ''0xT0KEN'')] \<rparr>"

section \<open>Auxiliary facts\<close>

subsection \<open>Decimal strings\<close>

text \<open>\<^verbatim>\<open>BigInt\<close> reads back what \<^verbatim>\<open>toString\<close> writes, so \<^verbatim>\<open>toString\<close> is injective.\<close>

lemma digit_val_digit_char: "d < 10 \<Longrightarrow> digit_val (digit_char d) = Some d"
proof -
  assume "d < 10"
  then have "d \<in> {0,1,2,3,4,5,6,7,8,9}" by auto
  then show ?thesis
    by (auto simp: digit_val_def digit_char_def)
qed

lemma digit_char_decimal: "d < 10 \<Longrightarrow> digit_char d \<in> set ''0123456789''"
proof -
  assume "d < 10"
  then have "d \<in> {0,1,2,3,4,5,6,7,8,9}" by auto
  then show ?thesis
    by (auto simp: digit_char_def)
qed

lemma digits_value_append:
  "digits_value b acc (xs @ ys) = (case digits_value b acc xs of None \<Rightarrow> None | Some a \<Rightarrow> digits_value b a ys)"
  by (induction xs arbitrary: acc) (auto split: option.splits)

lemma digits_value_dec_digits: "digits_value 10 0 (dec_digits n) = Some n"
proof (induction n rule: dec_digits.induct)
  case (1 n)
  show ?case
  proof (cases "n < 10")
    case True
    then show ?thesis by (simp add: dec_digits.simps [of n] digit_val_digit_char)
  next
    case False
    with 1 have "digits_value 10 0 (dec_digits (n div 10)) = Some (n div 10)" by simp
    with False show ?thesis
      by (simp add: dec_digits.simps [of n] digits_value_append digit_val_digit_char)
  qed
qed

lemma dec_digits_decimal: "set (dec_digits n) \<subseteq> set ''0123456789''"
proof (induction n rule: dec_digits.induct)
  case (1 n)
  show ?case
  proof (cases "n < 10")
    case True
    then show ?thesis using digit_char_decimal [of n] by (simp add: dec_digits.simps [of n])
  next
    case False
    with 1 have "set (dec_digits (n div 10)) \<subseteq> set ''0123456789''" by simp
    moreover have "digit_char (n mod 10) \<in> set ''0123456789''" by (rule digit_char_decimal) simp
    ultimately show ?thesis using False by (simp add: dec_digits.simps [of n])
  qed
qed

lemma dec_digits_nonempty: "dec_digits n \<noteq> []"
  by (subst dec_digits.simps) simp

lemma dropWhile_hd_id: "xs \<noteq> [] \<Longrightarrow> \<not> P (hd xs) \<Longrightarrow> dropWhile P xs = xs"
  by (cases xs) auto

lemma not_whitespace_decimal: "c \<in> set ''0123456789-'' \<Longrightarrow> \<not> is_whitespace c"
  by (auto simp: is_whitespace_def)

lemma js_trim_id:
  assumes "xs \<noteq> []" "\<not> is_whitespace (hd xs)" "\<not> is_whitespace (last xs)"
  shows "js_trim xs = xs"
proof -
  have "dropWhile is_whitespace xs = xs" using assms by (simp add: dropWhile_hd_id)
  moreover have "dropWhile is_whitespace (rev xs) = rev xs"
    using assms by (intro dropWhile_hd_id) (simp_all add: hd_rev)
  ultimately show ?thesis by (simp add: js_trim_def)
qed

lemma second_char_in: "take 2 t = [a, b] \<Longrightarrow> b \<in> set t"
  by (metis in_set_takeD list.set_intros(1) list.set_intros(2))

lemma decimal_no_prefix:
  assumes dec: "set t \<subseteq> set ''0123456789''" and c: "c \<notin> set ''0123456789''"
  shows "take 2 t \<noteq> [a, c]"
proof
  assume "take 2 t = [a, c]"
  then have "c \<in> set t" by (rule second_char_in)
  with dec c show False by blast
qed

lemma StringToBigInt_decimal:
  assumes ne: "t \<noteq> []" and dec: "set t \<subseteq> set ''0123456789''"
  shows "StringToBigInt t = map_option int (parse_digits 10 t)"
proof -
  have hd_in: "hd t \<in> set ''0123456789''" using ne dec by (meson hd_in_set subsetD)
  have last_in: "last t \<in> set ''0123456789''" using ne dec by (meson last_in_set subsetD)
  have "\<not> is_whitespace (hd t)" using hd_in by (intro not_whitespace_decimal) auto
  moreover have "\<not> is_whitespace (last t)" using last_in by (intro not_whitespace_decimal) auto
  ultimately have trim: "js_trim t = t" using ne by (intro js_trim_id)
  have no_prefix: "take 2 t \<noteq> ''0x''" "take 2 t \<noteq> ''0X''" "take 2 t \<noteq> ''0o''"
    "take 2 t \<noteq> ''0O''" "take 2 t \<noteq> ''0b''" "take 2 t \<noteq> ''0B''"
    by (rule decimal_no_prefix [OF dec], simp)+
  have no_sign: "hd t \<noteq> CHR ''-''" "hd t \<noteq> CHR ''+''" using hd_in by auto
  show ?thesis
    using ne no_prefix no_sign by (simp add: StringToBigInt_def trim)
qed

lemma StringToBigInt_dec_digits: "StringToBigInt (dec_digits n) = Some (int n)"
  using dec_digits_nonempty [of n] dec_digits_decimal [of n]
  by (simp add: StringToBigInt_decimal parse_digits_def digits_value_dec_digits)

lemma StringToBigInt_negative:
  assumes ne: "d \<noteq> []" and dec: "set d \<subseteq> set ''0123456789''"
  shows "StringToBigInt (CHR ''-'' # d) = map_option (\<lambda>n. - int n) (parse_digits 10 d)"
proof -
  let ?t = "CHR ''-'' # d"
  have last_in: "last d \<in> set ''0123456789''" using ne dec by (meson last_in_set subsetD)
  have "\<not> is_whitespace (last d)" using last_in by (intro not_whitespace_decimal) auto
  moreover have "\<not> is_whitespace (CHR ''-'')" by (simp add: is_whitespace_def)
  ultimately have trim: "js_trim ?t = ?t" using ne by (intro js_trim_id) simp_all
  have "take 2 ?t = [CHR ''-'', hd d]" using ne by (cases d) simp_all
  then have no_prefix: "take 2 ?t \<noteq> ''0x''" "take 2 ?t \<noteq> ''0X''" "take 2 ?t \<noteq> ''0o''"
    "take 2 ?t \<noteq> ''0O''" "take 2 ?t \<noteq> ''0b''" "take 2 ?t \<noteq> ''0B''"
    by simp_all
  show ?thesis
    using no_prefix by (simp add: StringToBigInt_def trim)
qed

lemma StringToBigInt_toString: "StringToBigInt (bigint_toString n) = Some n"
proof (cases "n < 0")
  case False
  then show ?thesis by (simp add: bigint_toString_def StringToBigInt_dec_digits)
next
  case True
  have "StringToBigInt (CHR ''-'' # dec_digits (nat (- n))) = Some (- int (nat (- n)))"
    using dec_digits_nonempty [of "nat (- n)"] dec_digits_decimal [of "nat (- n)"]
    by (simp add: StringToBigInt_negative parse_digits_def digits_value_dec_digits)
  with True show ?thesis by (simp add: bigint_toString_def)
qed

lemma bigint_toString_inj: "bigint_toString a = bigint_toString b \<Longrightarrow> a = b"
  by (metis StringToBigInt_toString option.inject)

lemma BigInt_toString: "BigInt (JStr (bigint_toString n)) = Inr n"
  by (simp add: StringToBigInt_toString)

subsection \<open>The gas buffer\<close>

lemma bigint_div_nonneg: "0 \<le> a \<Longrightarrow> 0 < b \<Longrightarrow> bigint_div a b = a div b"
  by (cases "a = 0") (simp_all add: bigint_div_def)

lemma gas_buffer_floor: "0 \<le> E \<Longrightarrow> gas_buffer E = \<lfloor>real_of_int E * 120 / 100\<rfloor>"
proof -
  assume "0 \<le> E"
  then have "gas_buffer E = (E * 120) div 100" by (simp add: gas_buffer_def bigint_div_nonneg)
  also have "\<dots> = \<lfloor>real_of_int (E * 120) / real_of_int 100\<rfloor>" by (rule floor_divide_of_int_eq [symmetric])
  finally show ?thesis by simp
qed

lemma gas_buffer_gt: "5 \<le> E \<Longrightarrow> E < gas_buffer E"
  by (simp add: gas_buffer_def bigint_div_nonneg)

subsection \<open>The range of formatUnits\<close>

lemma formatUnits_in_range:
  "d \<le> 80 \<Longrightarrow> - (2 ^ 511) \<le> v \<Longrightarrow> v < 2 ^ 511 \<Longrightarrow> formatUnits env v d = Inr (fixed_toString v d)"
  by (simp add: formatUnits_def)

lemma formatUnits_Inr:
  "formatUnits env v d = Inr s \<longleftrightarrow> d \<le> 80 \<and> - (2 ^ 511) \<le> v \<and> v < 2 ^ 511 \<and> s = fixed_toString v d"
  by (auto simp: formatUnits_def)

subsection \<open>The store\<close>

lemma heap_read_write: "heap_read (heap_write h c f) a = (if a = c then f (heap_read h c) else heap_read h a)"
  by (simp add: heap_read_def heap_write_def)

lemma objs_heap_write: "a \<noteq> c \<Longrightarrow> objs (heap_write h c f) a = objs h a"
  by (simp add: heap_write_def)

lemma next_heap_write: "next_addr (heap_write h c f) = next_addr h"
  by (simp add: heap_write_def)

lemma spread_addr: "snd (spread h a) = next_addr h"
  by (simp add: spread_def heap_alloc_def)

lemma spread_objs: "x \<noteq> next_addr h \<Longrightarrow> objs (fst (spread h a)) x = objs h x"
  by (simp add: spread_def heap_alloc_def)

lemma spread_read: "heap_read (fst (spread h a)) (next_addr h) = heap_read h a"
  by (simp add: spread_def heap_alloc_def heap_read_def)

lemma fill_from_frame: "x \<noteq> c \<Longrightarrow> objs (snd (fill_from env h c)) x = objs h x"
  by (simp add: fill_from_def objs_heap_write split: sum.splits)

lemma fill_gasLimit_frame: "x \<noteq> c \<Longrightarrow> objs (fill_gasLimit env h c) x = objs h x"
  by (simp add: fill_gasLimit_def objs_heap_write split: sum.splits)

lemma fill_fees_frame: "x \<noteq> c \<Longrightarrow> objs (snd (fill_fees env h c)) x = objs h x"
  by (simp add: fill_fees_def objs_heap_write Let_def split: sum.splits)

lemma fill_request_frame: "x \<noteq> c \<Longrightarrow> objs (snd (fill_request env h c)) x = objs h x"
proof (cases "fill_from env h c")
  case (Pair r h1)
  assume x: "x \<noteq> c"
  have h1: "objs h1 x = objs h x" using fill_from_frame [OF x, of env h] Pair by simp
  show ?thesis
  proof (cases r)
    case (Inl e)
    with Pair h1 show ?thesis by (simp add: fill_request_def)
  next
    case (Inr u)
    with Pair h1 show ?thesis
      by (simp add: fill_request_def fill_fees_frame [OF x] fill_gasLimit_frame [OF x])
  qed
qed

lemma fill_from_fields:
  "\<exists>v. heap_read (snd (fill_from env h c)) c = (heap_read h c)\<lparr> tx_from := v \<rparr>"
proof -
  have triv: "heap_read h c = (heap_read h c)\<lparr> tx_from := tx_from (heap_read h c) \<rparr>" by simp
  show ?thesis
    by (auto simp: fill_from_def heap_read_write split: sum.splits intro: triv exI [of _ "tx_from (heap_read h c)"])
qed

lemma fill_gasLimit_read:
  "heap_read (fill_gasLimit env h c) c =
     (if truthy (tx_gasLimit (heap_read h c)) then heap_read h c
      else (heap_read h c)\<lparr> tx_gasLimit :=
             (case provider_estimateGas env PreFill (heap_read h c) of
                Inr E \<Rightarrow> JBig (gas_buffer E) | Inl e \<Rightarrow> JBig 300000) \<rparr>)"
  by (simp add: fill_gasLimit_def heap_read_write split: sum.splits)

lemma fill_fees_fields:
  "\<exists>p m q. heap_read (snd (fill_fees env h c)) c =
      (heap_read h c)\<lparr> tx_gasPrice := p, tx_maxFeePerGas := m, tx_maxPriorityFeePerGas := q \<rparr>"
proof -
  let ?t = "heap_read h c"
  have triv: "?t = ?t\<lparr> tx_gasPrice := tx_gasPrice ?t, tx_maxFeePerGas := tx_maxFeePerGas ?t,
      tx_maxPriorityFeePerGas := tx_maxPriorityFeePerGas ?t \<rparr>" by simp
  have one: "\<exists>p m q. ?t\<lparr> tx_gasPrice := g \<rparr> = ?t\<lparr> tx_gasPrice := p, tx_maxFeePerGas := m, tx_maxPriorityFeePerGas := q \<rparr>" for g
    by (rule exI [of _ g], rule exI [of _ "tx_maxFeePerGas ?t"], rule exI [of _ "tx_maxPriorityFeePerGas ?t"]) simp
  have two: "\<exists>p m q. ?t\<lparr> tx_maxFeePerGas := g \<rparr> = ?t\<lparr> tx_gasPrice := p, tx_maxFeePerGas := m, tx_maxPriorityFeePerGas := q \<rparr>" for g
    by (rule exI [of _ "tx_gasPrice ?t"], rule exI [of _ g], rule exI [of _ "tx_maxPriorityFeePerGas ?t"]) simp
  have three: "\<exists>p m q. ?t\<lparr> tx_maxFeePerGas := g, tx_maxPriorityFeePerGas := k \<rparr> = ?t\<lparr> tx_gasPrice := p, tx_maxFeePerGas := m, tx_maxPriorityFeePerGas := q \<rparr>" for g k
    by (rule exI [of _ "tx_gasPrice ?t"], rule exI [of _ g], rule exI [of _ k]) simp
  have zero: "\<exists>p m q. ?t = ?t\<lparr> tx_gasPrice := p, tx_maxFeePerGas := m, tx_maxPriorityFeePerGas := q \<rparr>"
    using triv by blast
  show ?thesis
    unfolding fill_fees_def Let_def
    by (simp add: heap_read_write zero one two three split: sum.splits)
qed

lemma fill_request_heap:
  "snd (fill_request env h c) =
     (case fst (fill_from env h c) of
        Inl e \<Rightarrow> snd (fill_from env h c)
      | Inr u \<Rightarrow> snd (fill_fees env (fill_gasLimit env (snd (fill_from env h c)) c) c))"
  by (cases "fill_from env h c") (auto simp: fill_request_def split: sum.splits)

lemma fill_request_to_data:
  "tx_to (heap_read (snd (fill_request env h c)) c) = tx_to (heap_read h c) \<and>
   tx_data (heap_read (snd (fill_request env h c)) c) = tx_data (heap_read h c)"
proof -
  obtain v where v: "heap_read (snd (fill_from env h c)) c = (heap_read h c)\<lparr> tx_from := v \<rparr>"
    using fill_from_fields by blast
  let ?h1 = "snd (fill_from env h c)"
  let ?h2 = "fill_gasLimit env ?h1 c"
  obtain p m q where f: "heap_read (snd (fill_fees env ?h2 c)) c =
      (heap_read ?h2 c)\<lparr> tx_gasPrice := p, tx_maxFeePerGas := m, tx_maxPriorityFeePerGas := q \<rparr>"
    using fill_fees_fields by blast
  show ?thesis
    by (cases "fst (fill_from env h c)") (simp_all add: fill_request_heap v f fill_gasLimit_read)
qed

lemma fill_request_gasLimit:
  assumes "fill_from env h c = (Inr (), h1)"
  shows "tx_gasLimit (heap_read (snd (fill_request env h c)) c) =
     (if truthy (tx_gasLimit (heap_read h c)) then tx_gasLimit (heap_read h c)
      else case provider_estimateGas env PreFill (heap_read h1 c) of
             Inr E \<Rightarrow> JBig (gas_buffer E) | Inl e \<Rightarrow> JBig 300000)"
proof -
  obtain v where v: "heap_read h1 c = (heap_read h c)\<lparr> tx_from := v \<rparr>"
    using fill_from_fields [of env h c] assms by auto
  let ?h2 = "fill_gasLimit env h1 c"
  obtain p m q where f: "heap_read (snd (fill_fees env ?h2 c)) c =
      (heap_read ?h2 c)\<lparr> tx_gasPrice := p, tx_maxFeePerGas := m, tx_maxPriorityFeePerGas := q \<rparr>"
    using fill_fees_fields by blast
  have g: "tx_gasLimit (heap_read h1 c) = tx_gasLimit (heap_read h c)" by (simp add: v)
  show ?thesis
    using assms by (simp add: fill_request_heap f fill_gasLimit_read g)
qed

lemma fill_request_gasLimit_supplied:
  assumes "truthy (tx_gasLimit (heap_read h c))"
  shows "tx_gasLimit (heap_read (snd (fill_request env h c)) c) = tx_gasLimit (heap_read h c)"
proof -
  obtain v where v: "heap_read (snd (fill_from env h c)) c = (heap_read h c)\<lparr> tx_from := v \<rparr>"
    using fill_from_fields by blast
  let ?h1 = "snd (fill_from env h c)"
  let ?h2 = "fill_gasLimit env ?h1 c"
  obtain p m q where f: "heap_read (snd (fill_fees env ?h2 c)) c =
      (heap_read ?h2 c)\<lparr> tx_gasPrice := p, tx_maxFeePerGas := m, tx_maxPriorityFeePerGas := q \<rparr>"
    using fill_fees_fields by blast
  show ?thesis
    using assms by (cases "fst (fill_from env h c)") (simp_all add: fill_request_heap v f fill_gasLimit_read)
qed

subsection \<open>The operations on the store\<close>

lemma simulateTransaction_try_heap:
  "snd (simulateTransaction_try env h a) = snd (fill_request env (fst (spread h a)) (next_addr h))"
  using spread_addr [of h a]
  by (cases "spread h a"; cases "fill_request env (fst (spread h a)) (next_addr h)")
     (auto simp: simulateTransaction_try_def split: sum.splits)

lemma simulateTransaction_heap:
  "snd (simulateTransaction env h a) = snd (simulateTransaction_try env h a)"
  by (cases "simulateTransaction_try env h a") (auto simp: simulateTransaction_def split: sum.splits)

lemma simulateTransaction_copy:
  "heap_read (snd (simulateTransaction env h a)) (next_addr h) =
   heap_read (snd (fill_request env (fst (spread h a)) (next_addr h))) (next_addr h)"
  by (simp add: simulateTransaction_heap simulateTransaction_try_heap)

lemma estimateGas_try_heap:
  "snd (estimateGas_try env h a) = snd (fill_from env (fst (spread h a)) (next_addr h))"
  using spread_addr [of h a]
  by (cases "spread h a"; cases "fill_from env (fst (spread h a)) (next_addr h)")
     (auto simp: estimateGas_try_def Let_def split: sum.splits)

lemma estimateGas_heap:
  "snd (estimateGas env h a) = snd (estimateGas_try env h a)"
  by (cases "estimateGas_try env h a") (auto simp: estimateGas_def split: sum.splits)

lemma estimateGas_try_Inr:
  assumes "fst (estimateGas_try env h a) = Inr r"
  shows "\<exists>E tx. provider_estimateGas env Standalone tx = Inr E \<and>
           r = \<lparr> gasEstimate = bigint_toString E, gasLimit = bigint_toString (gas_buffer E),
                 recommendedGasLimit = bigint_toString (gas_buffer E) \<rparr>"
  using assms
  by (cases "spread h a"; cases "fill_from env (fst (spread h a)) (snd (spread h a))")
     (auto simp: estimateGas_try_def Let_def split: sum.splits)

lemma estimateGas_Inr:
  "fst (estimateGas env h a) = Inr r \<Longrightarrow> fst (estimateGas_try env h a) = Inr r"
  by (cases "estimateGas_try env h a") (auto simp: estimateGas_def split: sum.splits)

lemma simulateTransaction_try_unfold:
  "simulateTransaction_try env h a =
     (case fill_request env (fst (spread h a)) (next_addr h) of
        (Inl e, h1) \<Rightarrow> (Inl e, h1)
      | (Inr u, h1) \<Rightarrow> (simulate_run env (heap_read h1 (next_addr h)), h1))"
  using spread_addr [of h a]
  by (cases "spread h a") (simp add: simulateTransaction_try_def)

lemma simulateTransaction_try_Inr:
  assumes "simulateTransaction_try env h a = (Inr r, h1)"
  shows "simulate_run env (heap_read h1 (next_addr h)) = Inr r"
  using assms unfolding simulateTransaction_try_unfold
  by (auto split: prod.splits sum.splits)

lemma simulateTransaction_cases:
  "fst (simulateTransaction env h a) =
     (case fst (simulateTransaction_try env h a) of Inr r \<Rightarrow> Inr r | Inl error \<Rightarrow> Inr (fallback_result error))"
  by (cases "simulateTransaction_try env h a") (auto simp: simulateTransaction_def split: sum.splits)

lemma simulateTransaction_returns: "\<exists>r. fst (simulateTransaction env h a) = Inr r"
  by (simp add: simulateTransaction_cases split: sum.splits)

subsection \<open>The fields of the result\<close>

text \<open>Each step of the simulation writes its own fields of the result and no other.\<close>

lemma detectERC20Transfer_fields:
  "\<exists>tts. detectERC20Transfer env tx r = r\<lparr> tokenTransfers := tts \<rparr>"
proof -
  have triv: "r = r\<lparr> tokenTransfers := tokenTransfers r \<rparr>" by simp
  show ?thesis
    unfolding detectERC20Transfer_def Let_def
    by (cases "token_details env (tx_to tx)")
       (auto split: sum.splits option.splits intro: exI [of _ "tokenTransfers r"] triv)
qed

lemma detectTokenTransfers_fields:
  assumes "detectTokenTransfers env tx r = Inr r1"
  shows "\<exists>tts. r1 = r\<lparr> tokenTransfers := tts \<rparr>"
proof -
  have triv: "r = r\<lparr> tokenTransfers := tokenTransfers r \<rparr>" by simp
  from assms consider "r1 = r" | "r1 = detectERC20Transfer env tx r"
    by (auto simp: detectTokenTransfers_def split: if_splits jsval.splits)
  then show ?thesis
  proof cases
    case 1
    then show ?thesis using triv by blast
  next
    case 2
    then show ?thesis using detectERC20Transfer_fields by simp
  qed
qed

lemma contract_creation_fields:
  assumes "contract_creation env tx r = Inr r1"
  shows "\<exists>cis. r1 = r\<lparr> contractInteractions := cis \<rparr>"
proof -
  have triv: "r = r\<lparr> contractInteractions := contractInteractions r \<rparr>" by simp
  show ?thesis
  proof (cases "\<not> truthy (tx_to tx) \<and> truthy (tx_data tx)")
    case False
    with assms have "r1 = r" by (auto simp: contract_creation_def)
    then show ?thesis using triv by blast
  next
    case True
    with assms show ?thesis
      unfolding contract_creation_def Let_def
      by (auto split: sum.splits jsval.splits)
  qed
qed

lemma add_gasCost_fields:
  assumes "add_gasCost env tx r = Inr r1"
  shows "\<exists>c. r1 = r\<lparr> gasCost := Some c \<rparr>"
  using assms unfolding add_gasCost_def Let_def
  by (auto split: sum.splits)

lemma reestimate_gas_fields:
  "\<exists>u m. reestimate_gas env tx r = r\<lparr> gasUsed := u, errorMessage := m \<rparr> \<and>
          (errorMessage r \<noteq> None \<longrightarrow> m \<noteq> None)"
proof (cases "provider_estimateGas env ReEstimate tx")
  case (Inr E)
  then have "reestimate_gas env tx r = r\<lparr> gasUsed := bigint_toString E, errorMessage := errorMessage r \<rparr>"
    by (simp add: reestimate_gas_def)
  then show ?thesis by blast
next
  case (Inl e)
  show ?thesis
  proof (cases "no_errorMessage (errorMessage r)")
    case True
    with Inl have "reestimate_gas env tx r = r\<lparr> gasUsed := gasLimit_toString_or_0 (tx_gasLimit tx),
        errorMessage := Some (''Gas estimation failed: '' @ e_message e) \<rparr>"
      by (simp add: reestimate_gas_def)
    then show ?thesis by blast
  next
    case False
    with Inl have "reestimate_gas env tx r = r\<lparr> gasUsed := gasLimit_toString_or_0 (tx_gasLimit tx),
        errorMessage := errorMessage r \<rparr>"
      by (simp add: reestimate_gas_def)
    then show ?thesis by blast
  qed
qed

lemma simulate_run_Inr:
  assumes "simulate_run env tx = Inr r"
  shows "\<exists>b. provider_getBlockNumber env = Inr b \<and>
           success r = (\<exists>out. provider_call env tx b = Inr out) \<and>
           (\<not> success r \<longrightarrow> errorMessage r \<noteq> None) \<and>
           gasUsed r = (case provider_estimateGas env ReEstimate tx of
                          Inr E \<Rightarrow> bigint_toString E
                        | Inl e \<Rightarrow> gasLimit_toString_or_0 (tx_gasLimit tx)) \<and>
           logs r = [] \<and> stateChanges r = Some [] \<and> gasCost r \<noteq> None"
proof -
  from assms obtain b where b: "provider_getBlockNumber env = Inr b"
    by (auto simp: simulate_run_def split: sum.splits)
  define r1 where "r1 = speculative_call env tx b initial_result"
  define r2 where "r2 = reestimate_gas env tx r1"
  from assms b obtain r3 r4 where r3: "detectTokenTransfers env tx r2 = Inr r3"
    and r4: "contract_creation env tx r3 = Inr r4" and r: "add_gasCost env tx r4 = Inr r"
    by (auto simp: simulate_run_def Let_def r1_def r2_def split: sum.splits)
  have s1: "success r1 = (\<exists>out. provider_call env tx b = Inr out)"
    and e1: "\<not> success r1 \<longrightarrow> errorMessage r1 \<noteq> None"
    and l1: "logs r1 = []" "stateChanges r1 = Some []"
    by (auto simp: r1_def speculative_call_def initial_result_def split: sum.splits)
  obtain u m where r2': "r2 = r1\<lparr> gasUsed := u, errorMessage := m \<rparr>"
    and m: "errorMessage r1 \<noteq> None \<longrightarrow> m \<noteq> None"
    using reestimate_gas_fields [of env tx r1] unfolding r2_def by blast
  have u: "gasUsed r2 = (case provider_estimateGas env ReEstimate tx of
                          Inr E \<Rightarrow> bigint_toString E
                        | Inl e \<Rightarrow> gasLimit_toString_or_0 (tx_gasLimit tx))"
    by (auto simp: r2_def reestimate_gas_def Let_def split: sum.splits)
  obtain tts where r3': "r3 = r2\<lparr> tokenTransfers := tts \<rparr>"
    using detectTokenTransfers_fields [OF r3] by blast
  obtain cis where r4': "r4 = r3\<lparr> contractInteractions := cis \<rparr>"
    using contract_creation_fields [OF r4] by blast
  obtain c where r': "r = r4\<lparr> gasCost := Some c \<rparr>"
    using add_gasCost_fields [OF r] by blast
  show ?thesis
    using b s1 e1 l1 m u by (auto simp: r' r4' r3' r2')
qed

lemma simulate_run_tokenTransfers:
  assumes "simulate_run env tx = Inr r"
  shows "\<exists>r2 r3. tokenTransfers r2 = [] \<and> detectTokenTransfers env tx r2 = Inr r3 \<and>
           tokenTransfers r = tokenTransfers r3"
proof -
  from assms obtain b where b: "provider_getBlockNumber env = Inr b"
    by (auto simp: simulate_run_def split: sum.splits)
  define r1 where "r1 = speculative_call env tx b initial_result"
  define r2 where "r2 = reestimate_gas env tx r1"
  from assms b obtain r3 r4 where r3: "detectTokenTransfers env tx r2 = Inr r3"
    and r4: "contract_creation env tx r3 = Inr r4" and r: "add_gasCost env tx r4 = Inr r"
    by (auto simp: simulate_run_def Let_def r1_def r2_def split: sum.splits)
  have t1: "tokenTransfers r1 = []"
    by (auto simp: r1_def speculative_call_def initial_result_def split: sum.splits)
  obtain u m where "r2 = r1\<lparr> gasUsed := u, errorMessage := m \<rparr>"
    using reestimate_gas_fields [of env tx r1] unfolding r2_def by blast
  with t1 have t2: "tokenTransfers r2 = []" by simp
  obtain cis where "r4 = r3\<lparr> contractInteractions := cis \<rparr>"
    using contract_creation_fields [OF r4] by blast
  moreover obtain c where "r = r4\<lparr> gasCost := Some c \<rparr>"
    using add_gasCost_fields [OF r] by blast
  ultimately have "tokenTransfers r = tokenTransfers r3" by simp
  with t2 r3 show ?thesis by blast
qed

lemma detectTokenTransfers_transfer:
  assumes "truthy (tx_to tx)" and "tx_data tx = JStr d" and "d \<noteq> []"
    and "startsWith d (ERC20_TRANSFER_SIGNATURE env)"
    and "parseTransaction env (JStr d) = Inr (Some \<lparr> dc_name = ''transfer'', dc_args0 = recipient, dc_args1 = amount \<rparr>)"
    and "new_Contract env (tx_to tx) = Inr ()"
    and "contract_symbol env (tx_to tx) = Inr symbol"
    and "contract_decimals env (tx_to tx) = Inr decimals"
    and "formatUnits env amount decimals = Inr formatted"
  shows "detectTokenTransfers env tx r = Inr (r\<lparr> tokenTransfers := tokenTransfers r @
           [\<lparr> tt_token = tx_to tx, tt_symbol = symbol, tt_from = tx_from tx, tt_to = recipient,
              tt_amount = formatted, tt_rawAmount = bigint_toString amount,
              tt_type = ''ERC20'' \<rparr>] \<rparr>)"
  using assms
  by (simp add: detectTokenTransfers_def detectERC20Transfer_def token_details_def Let_def)

lemma detectTokenTransfers_other:
  assumes "\<forall>d. tx_data tx = JStr d \<longrightarrow> \<not> startsWith d (ERC20_TRANSFER_SIGNATURE env)"
    and "detectTokenTransfers env tx r = Inr r1"
  shows "r1 = r"
  using assms
  by (auto simp: detectTokenTransfers_def split: if_splits jsval.splits)

text \<open>What every call of \<^verbatim>\<open>simulateTransaction\<close> returns.\<close>

lemma simulateTransaction_result:
  "\<exists>r. fst (simulateTransaction env h transaction) = Inr r \<and>
        (\<not> success r \<longrightarrow> errorMessage r \<noteq> None) \<and>
        (\<forall>b e. provider_getBlockNumber env = Inr b \<longrightarrow>
               provider_call env (heap_read (snd (simulateTransaction env h transaction)) (next_addr h)) b = Inl e \<longrightarrow>
               \<not> success r) \<and>
        (\<forall>error. fst (simulateTransaction_try env h transaction) = Inl error \<longrightarrow>
               r = \<lparr> success = False, gasUsed = ''0'', logs = [], tokenTransfers = [],
                     contractInteractions = [], errorMessage = Some (e_message error),
                     stateChanges = None, gasCost = None \<rparr>) \<and>
        (\<forall>r1. fst (simulateTransaction_try env h transaction) = Inr r1 \<longrightarrow>
               r = r1 \<and> stateChanges r = Some [] \<and> gasCost r \<noteq> None)"
proof (cases "simulateTransaction_try env h transaction")
  case (Pair res h1)
  show ?thesis
  proof (cases res)
    case (Inl error)
    with Pair show ?thesis
      by (simp add: simulateTransaction_def fallback_result_def)
  next
    case (Inr r1)
    with Pair have run: "simulate_run env (heap_read h1 (next_addr h)) = Inr r1"
      using simulateTransaction_try_Inr by simp
    from Pair Inr have res: "simulateTransaction env h transaction = (Inr r1, h1)"
      by (simp add: simulateTransaction_def)
    from simulate_run_Inr [OF run] res Inr Pair show ?thesis
      by auto
  qed
qed

subsection \<open>Failures of analyzeTransaction\<close>

text \<open>
  The quantities of a transaction response and of a receipt are inside the range of
  \<^verbatim>\<open>formatUnits\<close>, so none of its calls in \<^verbatim>\<open>analyzeTransaction\<close> throws.
\<close>

lemma formatUnits_word256:
  "d \<le> 80 \<Longrightarrow> formatUnits env (uint (w :: 256 word)) d = Inr (fixed_toString (uint w) d)"
proof -
  assume d: "d \<le> 80"
  have "uint w < 2 ^ 256" using uint_lt2p [of w] by simp
  also have "(2::int) ^ 256 \<le> 2 ^ 511" by (rule power_increasing) simp_all
  finally have "uint w < 2 ^ 511" .
  moreover have "- (2 ^ 511) \<le> uint w"
    by (rule order_trans [of _ 0]) simp_all
  ultimately show ?thesis using d by (simp only: formatUnits_in_range)
qed

lemma formatUnits_cost:
  "d \<le> 80 \<Longrightarrow> formatUnits env (uint (g :: 64 word) * uint (p :: 256 word)) d =
     Inr (fixed_toString (uint g * uint p) d)"
proof -
  assume d: "d \<le> 80"
  have g: "uint g < 2 ^ 64" using uint_lt2p [of g] by simp
  have p: "uint p < 2 ^ 256" using uint_lt2p [of p] by simp
  have "uint g * uint p < 2 ^ 64 * 2 ^ 256"
    by (rule mult_strict_mono' [OF g p]) simp_all
  also have "\<dots> = (2::int) ^ 320" by (simp add: power_add [symmetric])
  also have "(2::int) ^ 320 \<le> 2 ^ 511" by (rule power_increasing) simp_all
  finally have "uint g * uint p < 2 ^ 511" .
  moreover have "- (2 ^ 511) \<le> uint g * uint p"
    by (rule order_trans [of _ 0]) simp_all
  ultimately show ?thesis using d by (simp only: formatUnits_in_range)
qed

lemmas analyze_defs = analyzeTransaction_def analyzeTransaction_try_def createTransactionError_def
  TRANSACTION_FAILED_def new_Error_def formatEther_def gwei_decimals_def formatUnits_word256
  formatUnits_cost Let_def

lemma analyzeTransaction_try_fails:
  "(\<exists>e. analyzeTransaction_try env txHash = Inl e) \<longleftrightarrow>
     (\<forall>tx. provider_getTransaction env txHash \<noteq> Inr (Some tx)) \<or>
     (\<exists>e. provider_getTransactionReceipt env txHash = Inl e)"
  by (auto simp: analyzeTransaction_try_def formatEther_def gwei_decimals_def formatUnits_word256
      formatUnits_cost Let_def split: sum.splits option.splits)

lemma analyzeTransaction_fails_iff:
  "(\<exists>e. analyzeTransaction env txHash = Inl e) \<longleftrightarrow> (\<exists>e. analyzeTransaction_try env txHash = Inl e)"
  by (auto simp: analyzeTransaction_def split: sum.splits)

subsection \<open>The scan of the registry\<close>

text \<open>
  The two loops compute the signed sum, and the report is the concatenation of what each
  token contributes: one entry, or nothing when its sum is zero or its body throws.
\<close>

lemma subtract_outgoing_sum: "subtract_outgoing events t = t - sum_list (map args_value events)"
  by (induction events arbitrary: t) simp_all

lemma add_incoming_sum: "add_incoming events t = t + sum_list (map args_value events)"
  by (induction events arbitrary: t) simp_all

lemma totalChange_net_change:
  "add_incoming eventsTo (subtract_outgoing eventsFrom 0) = net_change eventsFrom eventsTo"
  by (simp add: subtract_outgoing_sum add_incoming_sum net_change_def)

lemma scan_token_accumulates:
  "scan_token env address fb tb entry changes =
     (case scan_token env address fb tb entry [] of
        Inl e \<Rightarrow> Inl e
      | Inr cs \<Rightarrow> Inr (changes @ cs))"
  by (simp add: scan_token_def Let_def split: sum.splits)

lemma scan_tokens_concat:
  "scan_tokens env address fb tb tokens changes =
     changes @ concat (map (\<lambda>entry. case scan_token env address fb tb entry [] of
                                       Inl e \<Rightarrow> [] | Inr cs \<Rightarrow> cs) tokens)"
proof (induction tokens arbitrary: changes)
  case Nil
  show ?case by simp
next
  case (Cons entry tokens)
  show ?case
    by (subst scan_tokens.simps, subst scan_token_accumulates)
       (simp add: Cons.IH split: sum.splits)
qed

lemma scan_token_symbol:
  assumes "scan_token env address fb tb entry [] = Inr cs" and "c \<in> set cs"
  shows "ch_symbol c = fst entry"
  using assms
  by (auto simp: scan_token_def Let_def split: sum.splits if_splits)

lemma scan_token_ok:
  assumes "new_Contract env (snd entry) = Inr ()"
    and "contract_queryFilter env (snd entry) Outgoing address fb tb = Inr eventsFrom"
    and "contract_queryFilter env (snd entry) Incoming address fb tb = Inr eventsTo"
    and "decimals = (case contract_decimals env (snd entry) of Inl e \<Rightarrow> 18 | Inr d \<Rightarrow> d)"
    and "net = net_change eventsFrom eventsTo"
  shows "(case scan_token env address fb tb entry [] of Inl e \<Rightarrow> [] | Inr cs \<Rightarrow> cs) =
     (if net \<noteq> 0 \<and> decimals \<le> 80 \<and> - (2 ^ 511) \<le> net \<and> net < 2 ^ 511 then
        [\<lparr> ch_token = snd entry, ch_symbol = fst entry,
           ch_change = fixed_toString net decimals,
           ch_changeType = (if net > 0 then ''increase'' else ''decrease''),
           ch_fromBlock = fb, ch_toBlock = tb,
           ch_outgoing = length eventsFrom, ch_incoming = length eventsTo \<rparr>]
      else [])"
proof (cases "net = 0")
  case True
  with assms show ?thesis
    by (simp add: scan_token_def Let_def totalChange_net_change)
next
  case False
  show ?thesis
  proof (cases "formatUnits env net decimals")
    case (Inl e)
    then have "\<not> (decimals \<le> 80 \<and> - (2 ^ 511) \<le> net \<and> net < 2 ^ 511)"
      using formatUnits_in_range [of decimals net env] by auto
    with assms False Inl show ?thesis
      by (simp add: scan_token_def Let_def totalChange_net_change)
  next
    case (Inr str)
    then have "decimals \<le> 80 \<and> - (2 ^ 511) \<le> net \<and> net < 2 ^ 511 \<and> str = fixed_toString net decimals"
      by (simp add: formatUnits_Inr)
    with assms False Inr show ?thesis
      by (simp add: scan_token_def Let_def totalChange_net_change)
  qed
qed

lemma getTokenBalanceChanges_changes:
  assumes "getTokenBalanceChanges env address fromBlock toBlock = Inr report"
  shows "rp_changes report =
     concat (map (\<lambda>entry. case scan_token env address (block_param fromBlock) (block_param toBlock) entry [] of
                             Inl e \<Rightarrow> [] | Inr cs \<Rightarrow> cs) (tokenAddresses env))"
  using assms
  by (auto simp: getTokenBalanceChanges_def Let_def scan_tokens_concat split: if_splits)

lemma entries_with_symbol:
  assumes d: "distinct (map fst tokens)" and m: "entry \<in> set tokens"
    and f: "\<And>e c. c \<in> set (f e) \<Longrightarrow> ch_symbol c = fst e"
  shows "{c \<in> set (concat (map f tokens)). ch_symbol c = fst entry} = set (f entry)"
proof
  show "{c \<in> set (concat (map f tokens)). ch_symbol c = fst entry} \<subseteq> set (f entry)"
  proof
    fix c assume "c \<in> {c \<in> set (concat (map f tokens)). ch_symbol c = fst entry}"
    then obtain e where e: "e \<in> set tokens" "c \<in> set (f e)" and s: "ch_symbol c = fst entry"
      by auto
    from f [OF e(2)] s have "fst e = fst entry" by simp
    with d e(1) m have "e = entry" by (meson distinct_map inj_onD)
    with e show "c \<in> set (f entry)" by simp
  qed
  show "set (f entry) \<subseteq> {c \<in> set (concat (map f tokens)). ch_symbol c = fst entry}"
  proof
    fix c assume c: "c \<in> set (f entry)"
    with m have "c \<in> set (concat (map f tokens))" by auto
    with f [OF c] show "c \<in> {c \<in> set (concat (map f tokens)). ch_symbol c = fst entry}" by simp
  qed
qed

lemma formatUnits_registry:
  "formatUnits (env\<lparr> tokenAddresses := ts \<rparr>) v d = formatUnits env v d"
  by (simp add: formatUnits_def)

lemma scan_token_registry:
  "scan_token (env\<lparr> tokenAddresses := ts \<rparr>) address fb tb entry changes = scan_token env address fb tb entry changes"
  by (simp add: scan_token_def formatUnits_registry Let_def cong: sum.case_cong if_cong)

lemma scan_tokens_registry:
  "scan_tokens (env\<lparr> tokenAddresses := ts \<rparr>) address fb tb tokens changes = scan_tokens env address fb tb tokens changes"
  by (induction tokens arbitrary: changes) (simp_all add: scan_token_registry)

subsection \<open>Evaluation on the examples\<close>

text \<open>
  The recursive equations of the digit functions are unfolded under their conditions, so
  that the simplifier evaluates them on numerals.
\<close>

lemma replicate_num: "replicate (numeral k) x = x # replicate (pred_numeral k) x"
  by (simp add: numeral_eq_Suc)

lemma dec_digits_small: "n < 10 \<Longrightarrow> dec_digits n = [digit_char n]"
  by (simp add: dec_digits.simps)

lemma dec_digits_large: "10 \<le> n \<Longrightarrow> dec_digits n = dec_digits (n div 10) @ [digit_char (n mod 10)]"
  by (subst dec_digits.simps) simp

lemma hex_digits_small: "n < 16 \<Longrightarrow> hex_digits n = [digit_char n]"
  by (simp add: hex_digits.simps)

lemma hex_digits_large: "16 \<le> n \<Longrightarrow> hex_digits n = hex_digits (n div 16) @ [digit_char (n mod 16)]"
  by (subst hex_digits.simps) simp

lemmas store_defs = spread_def heap_alloc_def heap_read_def heap_write_def

lemmas string_defs = bigint_toString_def dec_digits_small dec_digits_large hex_digits_small
  hex_digits_large digit_char_def formatUnits_def formatEther_def fixed_toString_def
  gwei_decimals_def pad_zeros_def
  strip_fraction_def replicate_num startsWith_def StringToBigInt_def js_trim_def is_whitespace_def
  parse_digits_def digit_val_def

lemmas simulate_defs = simulateTransaction_def simulateTransaction_try_def fill_request_def
  fill_from_def fill_gasLimit_def fill_fees_def gas_buffer_def bigint_div_def simulate_run_def
  speculative_call_def reestimate_gas_def initial_result_def detectTokenTransfers_def
  detectERC20Transfer_def token_details_def contract_creation_def add_gasCost_def js_or_def
  parseUnits_50_gwei_def fallback_result_def call_errorMessage_def

lemmas example_defs = example_env_def example_heap_def example_request_def empty_request_def
  new_Error_def TypeError_def SyntaxError_def

lemmas example_defs2 = example_defs env_estimate_fails_def supplied_request_def supplied_heap_def
  env_overrun_def

lemmas estimate_defs = estimateGas_def estimateGas_try_def fill_from_def gas_buffer_def
  bigint_div_def createTransactionError_def TRANSACTION_FAILED_def

lemmas example_defs3 = example_defs2 env_unreachable_def revert_error_def env_revert_def

lemmas scan_defs = getTokenBalanceChanges_def scan_token_def block_param_def net_change_def

lemma BigInt_gasLimit_string:
  assumes "BigInt v = Inr L"
  shows "BigInt (JStr (gasLimit_toString_or_0 v)) = Inr L"
proof (cases v)
  case (JStr s)
  show ?thesis
  proof (cases "s = []")
    case True
    have "StringToBigInt ''0'' = Some 0" by (simp add: string_defs)
    moreover have "StringToBigInt [] = Some 0" by (simp add: StringToBigInt_def js_trim_def)
    ultimately show ?thesis using assms JStr True by simp
  next
    case False
    with assms JStr show ?thesis by simp
  qed
next
  case (JBig n)
  with assms show ?thesis by (simp add: StringToBigInt_toString)
qed (use assms in simp_all)

lemma format_500: "formatUnits env (500 * 10 ^ 18) 18 = Inr ''500.0''"
  by (simp add: string_defs Let_def)

lemma raw_500: "bigint_toString (500 * 10 ^ 18) = ''500000000000000000000''"
  by (simp add: string_defs)

lemma example_fill_from:
  "fill_from example_env (fst (spread example_heap 0)) (next_addr example_heap) =
     (Inr (), heap_write (fst (spread example_heap 0)) 1 (\<lambda>t. t\<lparr> tx_from := JStr ''0xA11CE'' \<rparr>))"
  by (simp add: fill_from_def store_defs example_defs)

lemma example_try:
  "simulateTransaction_try example_env example_heap 0 = (Inr example_result, example_heap_after)"
  unfolding example_result_def example_heap_after_def example_copy_def
  by (simp add: store_defs simulate_defs example_defs string_defs Let_def fun_eq_iff)

lemma example_simulate:
  "simulateTransaction example_env example_heap 0 = simulateTransaction_try example_env example_heap 0"
  by (simp add: simulateTransaction_def example_try)

lemma example_after_read: "heap_read example_heap_after (next_addr example_heap) = example_copy"
  by (simp add: example_heap_after_def example_heap_def heap_read_def)

lemma unreachable_try:
  "fst (simulateTransaction_try env_unreachable example_heap 0) = Inl (new_Error ''network unreachable'')"
  by (simp add: store_defs simulate_defs example_defs3 string_defs Let_def)

lemma revert_simulate:
  "fst (simulateTransaction env_revert example_heap 0) =
     Inr (example_result\<lparr> success := False,
            errorMessage := Some ''Transaction would revert: revert: balance too low'' \<rparr>)"
  unfolding example_result_def
  by (simp add: store_defs simulate_defs example_defs3 string_defs Let_def)

lemma example_scan:
  "getTokenBalanceChanges example_env (JStr ''0xA11CE'') (JStr ''100'') JUndefined = Inr example_report"
  by (simp add: scan_defs example_env_def example_report_def new_Error_def string_defs Let_def)

section \<open>The claims\<close>

text \<open>
  C1. Whatever the collaborators do, \<^verbatim>\<open>simulateTransaction\<close> returns a result object,
  and after a failure it has \<open>success = False\<close> and a non-null \<open>errorMessage\<close>
  (\<open>simulateTransaction_result\<close>). But the object is not always a whole simulation
  result. With a network that cannot give the block number, the body throws and the outer
  \<^verbatim>\<open>catch\<close> returns its own object literal: it has the \<open>logs\<close>, \<open>tokenTransfers\<close> and
  \<open>contractInteractions\<close> of the initial result, but neither its \<open>stateChanges\<close> nor the
  \<open>gasCost\<close> that the ordinary return sets. The same request with a speculative call that
  reverts takes the ordinary return, and that failed result has both.
\<close>

theorem fallback_result_lacks_fields:
  "fst (simulateTransaction env_unreachable example_heap 0) =
     Inr \<lparr> success = False, gasUsed = ''0'', logs = [], tokenTransfers = [],
           contractInteractions = [], errorMessage = Some ''network unreachable'',
           stateChanges = None, gasCost = None \<rparr> \<and>
   stateChanges initial_result = Some [] \<and>
   fst (simulateTransaction env_revert example_heap 0) =
     Inr (example_result\<lparr> success := False,
            errorMessage := Some ''Transaction would revert: revert: balance too low'' \<rparr>) \<and>
   stateChanges example_result = Some [] \<and>
   gasCost example_result =
     Some \<lparr> wei = ''630090000000000'', gwei = ''630090.0'', ether = ''0.00063009'' \<rparr>"
proof -
  have a: "fst (simulateTransaction env_unreachable example_heap 0) =
     Inr \<lparr> success = False, gasUsed = ''0'', logs = [], tokenTransfers = [],
           contractInteractions = [], errorMessage = Some ''network unreachable'',
           stateChanges = None, gasCost = None \<rparr>"
    by (simp add: store_defs simulate_defs example_defs3 string_defs Let_def)
  have b: "stateChanges initial_result = Some []"
    by (simp add: simulate_defs)
  have c: "stateChanges example_result = Some []"
    and d: "gasCost example_result =
      Some \<lparr> wei = ''630090000000000'', gwei = ''630090.0'', ether = ''0.00063009'' \<rparr>"
    by (simp_all add: example_result_def)
  from a b revert_simulate c d show ?thesis
    by (intro conjI)
qed

text \<open>
  C2. The buffered gas limit is \<open>\<lfloor>E * 120 / 100\<rfloor>\<close> for every estimate \<open>E \<ge> 0\<close> that the
  network returns: in \<^verbatim>\<open>simulateTransaction\<close> it is the \<open>gasLimit\<close> of the simulated copy
  when the request has none, a supplied \<open>gasLimit\<close> is left as it is, and in \<^verbatim>\<open>estimateGas\<close>
  it is the decimal string in \<open>gasLimit\<close> and \<open>recommendedGasLimit\<close>.
\<close>

theorem gas_buffer_is_floor:
  assumes "0 \<le> E"
  shows "(\<not> truthy (tx_gasLimit (heap_read h transaction)) \<longrightarrow>
            fill_from env (fst (spread h transaction)) (next_addr h) = (Inr (), h1) \<longrightarrow>
            provider_estimateGas env PreFill (heap_read h1 (next_addr h)) = Inr E \<longrightarrow>
            tx_gasLimit (heap_read (snd (simulateTransaction env h transaction)) (next_addr h))
              = JBig \<lfloor>real_of_int E * 120 / 100\<rfloor>) \<and>
         (truthy (tx_gasLimit (heap_read h transaction)) \<longrightarrow>
            tx_gasLimit (heap_read (snd (simulateTransaction env h transaction)) (next_addr h))
              = tx_gasLimit (heap_read h transaction)) \<and>
         (fill_from env (fst (spread h transaction)) (next_addr h) = (Inr (), h1) \<longrightarrow>
            provider_estimateGas env Standalone (heap_read h1 (next_addr h)) = Inr E \<longrightarrow>
            fst (estimateGas env h transaction) =
              Inr \<lparr> gasEstimate = bigint_toString E,
                    gasLimit = bigint_toString \<lfloor>real_of_int E * 120 / 100\<rfloor>,
                    recommendedGasLimit = bigint_toString \<lfloor>real_of_int E * 120 / 100\<rfloor> \<rparr>)"
proof (intro conjI impI)
  let ?h0 = "fst (spread h transaction)"
  let ?c = "next_addr h"
  {
    assume n: "\<not> truthy (tx_gasLimit (heap_read h transaction))"
      and f: "fill_from env ?h0 ?c = (Inr (), h1)"
      and p: "provider_estimateGas env PreFill (heap_read h1 ?c) = Inr E"
    show "tx_gasLimit (heap_read (snd (simulateTransaction env h transaction)) ?c)
              = JBig \<lfloor>real_of_int E * 120 / 100\<rfloor>"
      using n p fill_request_gasLimit [OF f] gas_buffer_floor [OF assms]
      by (simp add: simulateTransaction_copy spread_read)
  }
  {
    assume t: "truthy (tx_gasLimit (heap_read h transaction))"
    show "tx_gasLimit (heap_read (snd (simulateTransaction env h transaction)) ?c)
              = tx_gasLimit (heap_read h transaction)"
      using t fill_request_gasLimit_supplied [of ?h0 ?c env]
      by (simp add: simulateTransaction_copy spread_read)
  }
  {
    assume f: "fill_from env ?h0 ?c = (Inr (), h1)"
      and p: "provider_estimateGas env Standalone (heap_read h1 ?c) = Inr E"
    show "fst (estimateGas env h transaction) =
              Inr \<lparr> gasEstimate = bigint_toString E,
                    gasLimit = bigint_toString \<lfloor>real_of_int E * 120 / 100\<rfloor>,
                    recommendedGasLimit = bigint_toString \<lfloor>real_of_int E * 120 / 100\<rfloor> \<rparr>"
      using f p spread_addr [of h transaction] gas_buffer_floor [OF assms]
      by (cases "spread h transaction") (simp add: estimateGas_def estimateGas_try_def Let_def)
  }
qed

theorem gas_buffer_is_floor_witness:
  "(0::int) \<le> 21003 \<and>
   \<not> truthy (tx_gasLimit (heap_read example_heap 0)) \<and>
   provider_estimateGas example_env PreFill
     (heap_read (heap_write (fst (spread example_heap 0)) 1 (\<lambda>t. t\<lparr> tx_from := JStr ''0xA11CE'' \<rparr>)) (next_addr example_heap)) = Inr 21003 \<and>
   provider_estimateGas example_env Standalone
     (heap_read (heap_write (fst (spread example_heap 0)) 1 (\<lambda>t. t\<lparr> tx_from := JStr ''0xA11CE'' \<rparr>)) (next_addr example_heap)) = Inr 21003 \<and>
   truthy (tx_gasLimit (heap_read supplied_heap 0)) \<and>
   tx_gasLimit (heap_read (snd (simulateTransaction example_env example_heap 0)) (next_addr example_heap)) = JBig 25203 \<and>
   tx_gasLimit (heap_read (snd (simulateTransaction example_env supplied_heap 0)) (next_addr supplied_heap)) = JBig 21000 \<and>
   fst (estimateGas example_env example_heap 0) =
     Inr \<lparr> gasEstimate = ''21003'', gasLimit = ''25203'', recommendedGasLimit = ''25203'' \<rparr>"
proof -
  have E: "(0::int) \<le> 21003" by simp
  have n: "\<not> truthy (tx_gasLimit (heap_read example_heap 0))"
    by (simp add: store_defs example_defs)
  have p: "provider_estimateGas example_env PreFill
     (heap_read (heap_write (fst (spread example_heap 0)) 1 (\<lambda>t. t\<lparr> tx_from := JStr ''0xA11CE'' \<rparr>)) (next_addr example_heap)) = Inr 21003"
    and q: "provider_estimateGas example_env Standalone
     (heap_read (heap_write (fst (spread example_heap 0)) 1 (\<lambda>t. t\<lparr> tx_from := JStr ''0xA11CE'' \<rparr>)) (next_addr example_heap)) = Inr 21003"
    by (simp_all add: example_defs)
  have t: "truthy (tx_gasLimit (heap_read supplied_heap 0))"
    and s: "tx_gasLimit (heap_read supplied_heap 0) = JBig 21000"
    by (simp_all add: store_defs example_defs2)
  have fl: "\<lfloor>real_of_int 21003 * 120 / 100\<rfloor> = 25203" by (simp add: floor_eq_iff)
  have str: "bigint_toString 21003 = ''21003''" "bigint_toString 25203 = ''25203''"
    by (simp_all add: string_defs)
  from gas_buffer_is_floor [OF E, of example_heap 0 example_env
      "heap_write (fst (spread example_heap 0)) 1 (\<lambda>t. t\<lparr> tx_from := JStr ''0xA11CE'' \<rparr>)"]
    gas_buffer_is_floor [OF E, of supplied_heap 0 example_env]
    n p q t s example_fill_from
  show ?thesis by (simp add: fl str)
qed

text \<open>
  C3. For a token of the registry whose events can be fetched, the net change is the signed
  sum of the transfer amounts, incoming minus outgoing, over unbounded integers. The report
  has an entry with the token's symbol if and only if that sum is not zero and
  \<^verbatim>\<open>formatUnits\<close> accepts it: the token has at most 80 decimals and the sum is inside the
  signed 512-bit range. The entry carries the sum scaled by the decimals. The symbols of the
  registry are the keys of an object, hence distinct.
\<close>

theorem token_reported_iff_net_nonzero:
  assumes "getTokenBalanceChanges env address fromBlock toBlock = Inr report"
    and "distinct (map fst (tokenAddresses env))"
    and "(symbol, tokenAddress) \<in> set (tokenAddresses env)"
    and "new_Contract env tokenAddress = Inr ()"
    and "contract_queryFilter env tokenAddress Outgoing address (block_param fromBlock) (block_param toBlock) = Inr eventsFrom"
    and "contract_queryFilter env tokenAddress Incoming address (block_param fromBlock) (block_param toBlock) = Inr eventsTo"
    and "decimals = (case contract_decimals env tokenAddress of Inl e \<Rightarrow> 18 | Inr d \<Rightarrow> d)"
    and "net = net_change eventsFrom eventsTo"
  shows "((\<exists>c \<in> set (rp_changes report). ch_symbol c = symbol) \<longleftrightarrow>
            net \<noteq> 0 \<and> decimals \<le> 80 \<and> - (2 ^ 511) \<le> net \<and> net < 2 ^ 511) \<and>
         (\<forall>c \<in> set (rp_changes report). ch_symbol c = symbol \<longrightarrow>
            ch_token c = tokenAddress \<and>
            ch_change c = fixed_toString net decimals \<and>
            ch_changeType c = (if net > 0 then ''increase'' else ''decrease'') \<and>
            ch_outgoing c = length eventsFrom \<and> ch_incoming c = length eventsTo)"
proof -
  let ?fb = "block_param fromBlock" and ?tb = "block_param toBlock"
  let ?f = "\<lambda>entry. case scan_token env address ?fb ?tb entry [] of Inl e \<Rightarrow> [] | Inr cs \<Rightarrow> cs"
  let ?ok = "net \<noteq> 0 \<and> decimals \<le> 80 \<and> - (2 ^ 511) \<le> net \<and> net < 2 ^ 511"
  let ?c = "\<lparr> ch_token = tokenAddress, ch_symbol = symbol,
               ch_change = fixed_toString net decimals,
               ch_changeType = (if net > 0 then ''increase'' else ''decrease''),
               ch_fromBlock = ?fb, ch_toBlock = ?tb,
               ch_outgoing = length eventsFrom, ch_incoming = length eventsTo \<rparr>"
  have sym: "ch_symbol c = fst e" if "c \<in> set (?f e)" for e c
  proof (cases "scan_token env address ?fb ?tb e []")
    case (Inl x)
    with that show ?thesis by simp
  next
    case (Inr cs)
    with that have "c \<in> set cs" by simp
    with Inr show ?thesis by (rule scan_token_symbol)
  qed
  have "{c \<in> set (rp_changes report). ch_symbol c = symbol} = set (?f (symbol, tokenAddress))"
    using entries_with_symbol [OF assms(2,3), of ?f] sym
    by (simp add: getTokenBalanceChanges_changes [OF assms(1)])
  moreover have "?f (symbol, tokenAddress) = (if ?ok then [?c] else [])"
    using scan_token_ok [of env "(symbol, tokenAddress)" address ?fb ?tb eventsFrom eventsTo decimals net]
      assms(4-8)
    by simp
  ultimately have set_eq: "{c \<in> set (rp_changes report). ch_symbol c = symbol} =
      set (if ?ok then [?c] else [])"
    by simp
  show ?thesis
  proof (cases ?ok)
    case False
    with set_eq have "{c \<in> set (rp_changes report). ch_symbol c = symbol} = {}" by simp
    with False show ?thesis by auto
  next
    case True
    with set_eq have "{c \<in> set (rp_changes report). ch_symbol c = symbol} = {?c}"
      by simp
    then have mem: "\<And>c. c \<in> set (rp_changes report) \<and> ch_symbol c = symbol \<longleftrightarrow> c = ?c"
      by blast
    from mem [of ?c] have ex: "\<exists>c \<in> set (rp_changes report). ch_symbol c = symbol" by blast
    have "ch_token c = tokenAddress \<and>
            ch_change c = fixed_toString net decimals \<and>
            ch_changeType c = (if net > 0 then ''increase'' else ''decrease'') \<and>
            ch_outgoing c = length eventsFrom \<and> ch_incoming c = length eventsTo"
      if "c \<in> set (rp_changes report)" "ch_symbol c = symbol" for c
    proof -
      from that mem [of c] have "c = ?c" by blast
      then show ?thesis by simp
    qed
    with ex True show ?thesis by blast
  qed
qed

theorem token_reported_iff_net_nonzero_witness:
  "getTokenBalanceChanges example_env (JStr ''0xA11CE'') (JStr ''100'') JUndefined = Inr example_report \<and>
   distinct (map fst (tokenAddresses example_env)) \<and>
   (''TEST'', JStr ''0xT0KEN'') \<in> set (tokenAddresses example_env) \<and>
   (''USDC'', JStr ''0xU5DC'') \<in> set (tokenAddresses example_env) \<and>
   new_Contract example_env (JStr ''0xT0KEN'') = Inr () \<and>
   new_Contract example_env (JStr ''0xU5DC'') = Inr () \<and>
   contract_queryFilter example_env (JStr ''0xT0KEN'') Outgoing (JStr ''0xA11CE'')
     (block_param (JStr ''100'')) (block_param JUndefined) = Inr (replicate 3 \<lparr> args_value = 1 \<rparr>) \<and>
   contract_queryFilter example_env (JStr ''0xT0KEN'') Incoming (JStr ''0xA11CE'')
     (block_param (JStr ''100'')) (block_param JUndefined) = Inr (replicate 10 \<lparr> args_value = 1000000000000000001 \<rparr>) \<and>
   contract_queryFilter example_env (JStr ''0xU5DC'') Outgoing (JStr ''0xA11CE'')
     (block_param (JStr ''100'')) (block_param JUndefined) = Inr [\<lparr> args_value = 5 \<rparr>] \<and>
   contract_queryFilter example_env (JStr ''0xU5DC'') Incoming (JStr ''0xA11CE'')
     (block_param (JStr ''100'')) (block_param JUndefined) = Inr [\<lparr> args_value = 2 \<rparr>, \<lparr> args_value = 3 \<rparr>] \<and>
   contract_decimals example_env (JStr ''0xT0KEN'') = Inr 18 \<and>
   net_change (replicate 3 \<lparr> args_value = 1 \<rparr>) (replicate 10 \<lparr> args_value = 1000000000000000001 \<rparr>)
     = 10000000000000000007 \<and>
   net_change [\<lparr> args_value = 5 \<rparr>] [\<lparr> args_value = 2 \<rparr>, \<lparr> args_value = 3 \<rparr>] = 0 \<and>
   (\<exists>c. c \<in> set (rp_changes example_report) \<and> ch_symbol c = ''TEST'' \<and>
        ch_change c = fixed_toString 10000000000000000007 18 \<and>
        ch_change c = ''10.000000000000000007'') \<and>
   \<not> (\<exists>c. c \<in> set (rp_changes example_report) \<and> ch_symbol c = ''USDC'')"
proof -
  have d: "distinct (map fst (tokenAddresses example_env))"
    and m: "(''TEST'', JStr ''0xT0KEN'') \<in> set (tokenAddresses example_env)"
      "(''USDC'', JStr ''0xU5DC'') \<in> set (tokenAddresses example_env)"
    and n: "new_Contract example_env (JStr ''0xT0KEN'') = Inr ()"
      "new_Contract example_env (JStr ''0xU5DC'') = Inr ()"
    and q: "contract_queryFilter example_env (JStr ''0xT0KEN'') Outgoing (JStr ''0xA11CE'')
        (block_param (JStr ''100'')) (block_param JUndefined) = Inr (replicate 3 \<lparr> args_value = 1 \<rparr>)"
      "contract_queryFilter example_env (JStr ''0xT0KEN'') Incoming (JStr ''0xA11CE'')
        (block_param (JStr ''100'')) (block_param JUndefined) = Inr (replicate 10 \<lparr> args_value = 1000000000000000001 \<rparr>)"
    and u: "contract_queryFilter example_env (JStr ''0xU5DC'') Outgoing (JStr ''0xA11CE'')
        (block_param (JStr ''100'')) (block_param JUndefined) = Inr [\<lparr> args_value = 5 \<rparr>]"
      "contract_queryFilter example_env (JStr ''0xU5DC'') Incoming (JStr ''0xA11CE'')
        (block_param (JStr ''100'')) (block_param JUndefined) = Inr [\<lparr> args_value = 2 \<rparr>, \<lparr> args_value = 3 \<rparr>]"
    by (simp_all add: example_env_def)
  have net: "net_change (replicate 3 \<lparr> args_value = 1 \<rparr>) (replicate 10 \<lparr> args_value = 1000000000000000001 \<rparr>)
       = 10000000000000000007"
    "net_change [\<lparr> args_value = 5 \<rparr>] [\<lparr> args_value = 2 \<rparr>, \<lparr> args_value = 3 \<rparr>] = 0"
    by (simp_all add: net_change_def replicate_num)
  have dec: "contract_decimals example_env (JStr ''0xT0KEN'') = Inr 18" by (simp add: example_env_def)
  have r: "(18::nat) \<le> 80" "- (2 ^ 511) \<le> (10000000000000000007::int)"
    "(10000000000000000007::int) < 2 ^ 511"
    by simp_all
  from token_reported_iff_net_nonzero [OF example_scan d m(1) n(1) q refl net(1) [symmetric]] dec r
  have "\<exists>c. c \<in> set (rp_changes example_report) \<and> ch_symbol c = ''TEST'' \<and>
        ch_change c = fixed_toString 10000000000000000007 18"
    by auto
  then have first: "\<exists>c. c \<in> set (rp_changes example_report) \<and> ch_symbol c = ''TEST'' \<and>
        ch_change c = fixed_toString 10000000000000000007 18 \<and>
        ch_change c = ''10.000000000000000007''"
    by (auto simp: example_report_def)
  from token_reported_iff_net_nonzero [OF example_scan d m(2) n(2) u refl net(2) [symmetric]]
  have second: "\<not> (\<exists>c. c \<in> set (rp_changes example_report) \<and> ch_symbol c = ''USDC'')"
    by auto
  from example_scan d m n q u dec net first second show ?thesis by simp
qed

text \<open>
  A token with 81 decimals, three outgoing transfers of 1 and ten incoming ones of
  1000000000000000001: the sum is 10000000000000000007 and the report has no entry.
\<close>

theorem unformattable_token_counterexample:
  "getTokenBalanceChanges env_81_decimals (JStr ''0xA11CE'') (JStr ''100'') JUndefined =
     Inr \<lparr> rp_address = JStr ''0xA11CE'', rp_fromBlock = ParseInt (JStr ''100''),
           rp_toBlock = Latest, rp_changes = [] \<rparr> \<and>
   tokenAddresses env_81_decimals = [(''TEST'', JStr ''0xT0KEN'')] \<and>
   contract_decimals env_81_decimals (JStr ''0xT0KEN'') = Inr 81 \<and>
   contract_queryFilter env_81_decimals (JStr ''0xT0KEN'') Outgoing (JStr ''0xA11CE'')
     (ParseInt (JStr ''100'')) Latest = Inr (replicate 3 \<lparr> args_value = 1 \<rparr>) \<and>
   contract_queryFilter env_81_decimals (JStr ''0xT0KEN'') Incoming (JStr ''0xA11CE'')
     (ParseInt (JStr ''100'')) Latest = Inr (replicate 10 \<lparr> args_value = 1000000000000000001 \<rparr>) \<and>
   net_change (replicate 3 \<lparr> args_value = 1 \<rparr>) (replicate 10 \<lparr> args_value = 1000000000000000001 \<rparr>)
     = 10000000000000000007"
  by (simp add: scan_defs env_81_decimals_def example_env_def new_Error_def formatUnits_def
      replicate_num Let_def)

text \<open>
  C4. When the speculative call succeeds and no step of the simulation throws, the result has
  \<open>success = True\<close>, and \<open>gasUsed\<close> is the decimal string of the network's re-estimate, or
  of the final gas limit when the re-estimate fails. So \<open>gasUsed\<close> is at most the final gas
  limit whenever the re-estimate fails or does not exceed that limit.
\<close>

theorem successful_call_gasUsed:
  assumes "simulateTransaction_try env h transaction = (Inr r, h1)"
    and "tx = heap_read h1 (next_addr h)"
    and "provider_getBlockNumber env = Inr b"
    and "provider_call env tx b = Inr out"
  shows "fst (simulateTransaction env h transaction) = Inr r \<and> success r \<and>
         gasUsed r = (case provider_estimateGas env ReEstimate tx of
                        Inr E \<Rightarrow> bigint_toString E
                      | Inl e \<Rightarrow> gasLimit_toString_or_0 (tx_gasLimit tx)) \<and>
         (\<forall>L. BigInt (tx_gasLimit tx) = Inr L \<longrightarrow>
              (case provider_estimateGas env ReEstimate tx of Inr E \<Rightarrow> E \<le> L | Inl e \<Rightarrow> True) \<longrightarrow>
              (\<exists>u. BigInt (JStr (gasUsed r)) = Inr u \<and> u \<le> L))"
proof -
  have run: "simulate_run env tx = Inr r"
    using simulateTransaction_try_Inr [OF assms(1)] assms(2) by simp
  have res: "fst (simulateTransaction env h transaction) = Inr r"
    using assms(1) by (simp add: simulateTransaction_def)
  from simulate_run_Inr [OF run] assms(3,4)
  have s: "success r"
    and u: "gasUsed r = (case provider_estimateGas env ReEstimate tx of
                        Inr E \<Rightarrow> bigint_toString E
                      | Inl e \<Rightarrow> gasLimit_toString_or_0 (tx_gasLimit tx))"
    by auto
  have "\<exists>u. BigInt (JStr (gasUsed r)) = Inr u \<and> u \<le> L"
    if L: "BigInt (tx_gasLimit tx) = Inr L"
      and c: "case provider_estimateGas env ReEstimate tx of Inr E \<Rightarrow> E \<le> L | Inl e \<Rightarrow> True" for L
  proof (cases "provider_estimateGas env ReEstimate tx")
    case (Inr E)
    with c u show ?thesis by (simp add: StringToBigInt_toString)
  next
    case (Inl e)
    with u BigInt_gasLimit_string [OF L] show ?thesis by simp
  qed
  with res s u show ?thesis by blast
qed

theorem successful_call_gasUsed_witness:
  "simulateTransaction_try example_env example_heap 0 = (Inr example_result, example_heap_after) \<and>
   provider_getBlockNumber example_env = Inr 100 \<and>
   provider_call example_env (heap_read example_heap_after (next_addr example_heap)) 100 = Inr ''0x'' \<and>
   BigInt (tx_gasLimit (heap_read example_heap_after (next_addr example_heap))) = Inr 25203 \<and>
   provider_estimateGas example_env ReEstimate (heap_read example_heap_after (next_addr example_heap)) = Inr 21003 \<and>
   (21003::int) \<le> 25203 \<and>
   fst (simulateTransaction example_env example_heap 0) = Inr example_result \<and>
   success example_result \<and> gasUsed example_result = bigint_toString 21003 \<and>
   (\<exists>u. BigInt (JStr (gasUsed example_result)) = Inr u \<and> u \<le> 25203)"
proof -
  have b: "provider_getBlockNumber example_env = Inr 100"
    and c: "provider_call example_env (heap_read example_heap_after (next_addr example_heap)) 100 = Inr ''0x''"
    and e: "provider_estimateGas example_env ReEstimate (heap_read example_heap_after (next_addr example_heap)) = Inr 21003"
    by (simp_all add: example_env_def)
  have l: "BigInt (tx_gasLimit (heap_read example_heap_after (next_addr example_heap))) = Inr 25203"
    by (simp add: example_after_read example_copy_def)
  from successful_call_gasUsed [OF example_try refl b c] b c e l example_try
  show ?thesis by (simp add: StringToBigInt_toString)
qed

text \<open>
  The simulator does not cap the re-estimate: with a supplied limit of 21000 and a
  re-estimate of 50000 the call succeeds and \<open>gasUsed\<close> is 50000.
\<close>

theorem gasUsed_exceeds_limit_counterexample:
  "fst (simulateTransaction env_overrun supplied_heap 0) =
     Inr \<lparr> success = True, gasUsed = ''50000'', logs = [], tokenTransfers = [],
           contractInteractions = [], errorMessage = None, stateChanges = Some [],
           gasCost = Some \<lparr> wei = ''1500000000000000'', gwei = ''1500000.0'', ether = ''0.0015'' \<rparr> \<rparr> \<and>
   tx_gasLimit (heap_read (snd (simulateTransaction env_overrun supplied_heap 0)) 1) = JBig 21000 \<and>
   BigInt (JStr ''50000'') = Inr 50000 \<and> \<not> (50000 \<le> (21000::int))"
  by (simp add: store_defs simulate_defs example_defs2 string_defs Let_def)

text \<open>
  C5. When the network's gas estimate throws, \<^verbatim>\<open>estimateGas\<close> throws a
  \<^verbatim>\<open>TransactionError\<close> with code \<^verbatim>\<open>TRANSACTION_FAILED\<close>, whose message is
  \<^verbatim>\<open>Gas estimation failed: \<close> followed by the message of the cause and whose details hold
  the caller's request; it returns no default.
\<close>

theorem estimateGas_failure_is_wrapped:
  assumes "fill_from env (fst (spread h transaction)) (next_addr h) = (Inr (), h1)"
    and "provider_estimateGas env Standalone (heap_read h1 (next_addr h)) = Inl cause"
  shows "fst (estimateGas env h transaction) =
           Inl (JsError ''TransactionError'' (Some ''TRANSACTION_FAILED'')
                  (''Gas estimation failed: '' @ e_message cause) JUndefined
                  [(''transaction'', DObject transaction)])"
  using assms spread_addr [of h transaction]
  by (cases "spread h transaction")
     (simp add: estimateGas_def estimateGas_try_def createTransactionError_def TRANSACTION_FAILED_def)

theorem estimateGas_failure_is_wrapped_witness:
  "fill_from env_estimate_fails (fst (spread example_heap 0)) (next_addr example_heap) =
     (Inr (), heap_write (fst (spread example_heap 0)) 1 (\<lambda>t. t\<lparr> tx_from := JStr ''0xA11CE'' \<rparr>)) \<and>
   provider_estimateGas env_estimate_fails Standalone
     (heap_read (heap_write (fst (spread example_heap 0)) 1 (\<lambda>t. t\<lparr> tx_from := JStr ''0xA11CE'' \<rparr>)) (next_addr example_heap))
     = Inl (new_Error ''network down'') \<and>
   fst (estimateGas env_estimate_fails example_heap 0) =
     Inl (JsError ''TransactionError'' (Some ''TRANSACTION_FAILED'')
            ''Gas estimation failed: network down'' JUndefined [(''transaction'', DObject 0)])"
proof -
  have f: "fill_from env_estimate_fails (fst (spread example_heap 0)) (next_addr example_heap) =
     (Inr (), heap_write (fst (spread example_heap 0)) 1 (\<lambda>t. t\<lparr> tx_from := JStr ''0xA11CE'' \<rparr>))"
    by (simp add: fill_from_def store_defs example_defs2)
  have p: "provider_estimateGas env_estimate_fails Standalone
     (heap_read (heap_write (fst (spread example_heap 0)) 1 (\<lambda>t. t\<lparr> tx_from := JStr ''0xA11CE'' \<rparr>)) (next_addr example_heap))
     = Inl (new_Error ''network down'')"
    by (simp add: example_defs2)
  from estimateGas_failure_is_wrapped [OF f p] f p show ?thesis
    by (simp add: new_Error_def)
qed

text \<open>The details of that error hold the request only; the cause is not among them.\<close>

theorem estimateGas_details_counterexample:
  "fst (estimateGas env_estimate_fails example_heap 0) =
     Inl (JsError ''TransactionError'' (Some ''TRANSACTION_FAILED'')
            ''Gas estimation failed: network down'' JUndefined [(''transaction'', DObject 0)]) \<and>
   DCause (new_Error ''network down'') \<notin> snd ` set [(''transaction'', DObject 0)]"
  by (simp add: estimate_defs store_defs example_defs2)

text \<open>
  C6. \<^verbatim>\<open>analyzeTransaction\<close> throws exactly when the transaction lookup throws or finds
  nothing, or the receipt lookup throws; what it throws is a \<^verbatim>\<open>TransactionError\<close> with code
  \<^verbatim>\<open>TRANSACTION_FAILED\<close>, a message starting \<^verbatim>\<open>Analysis failed: \<close> and the hash in its
  details. For a transaction that is found and has no receipt it returns a result whose
  \<open>status\<close>, \<open>gasUsed\<close> and \<open>blockNumber\<close> are \<^verbatim>\<open>'Pending'\<close>.
\<close>

theorem analyzeTransaction_failure_and_pending:
  "((\<exists>e. analyzeTransaction env txHash = Inl e) \<longleftrightarrow>
      (\<forall>tx. provider_getTransaction env txHash \<noteq> Inr (Some tx)) \<or>
      (\<exists>e. provider_getTransactionReceipt env txHash = Inl e)) \<and>
   (\<forall>e. analyzeTransaction env txHash = Inl e \<longrightarrow>
      e_name e = ''TransactionError'' \<and> e_code e = Some ''TRANSACTION_FAILED'' \<and>
      take 17 (e_message e) = ''Analysis failed: '' \<and>
      e_details e = [(''txHash'', DValue (JStr txHash))]) \<and>
   (provider_getTransaction env txHash = Inr None \<longrightarrow>
      analyzeTransaction env txHash =
        Inl (JsError ''TransactionError'' (Some ''TRANSACTION_FAILED'')
               (''Analysis failed: Transaction not found: '' @ txHash) JUndefined
               [(''txHash'', DValue (JStr txHash))])) \<and>
   (\<forall>tx. provider_getTransaction env txHash = Inr (Some tx) \<longrightarrow>
      provider_getTransactionReceipt env txHash = Inr None \<longrightarrow>
      (\<exists>res. analyzeTransaction env txHash = Inr res \<and> an_status res = ''Pending'' \<and>
         an_gasUsed res = ''Pending'' \<and> an_blockNumber res = BlockMarker ''Pending'' \<and>
         an_logs res = 0 \<and> an_gasCost res = None))"
proof (intro conjI allI impI)
  show "(\<exists>e. analyzeTransaction env txHash = Inl e) \<longleftrightarrow>
      (\<forall>tx. provider_getTransaction env txHash \<noteq> Inr (Some tx)) \<or>
      (\<exists>e. provider_getTransactionReceipt env txHash = Inl e)"
    by (simp only: analyzeTransaction_fails_iff analyzeTransaction_try_fails)
next
  fix e assume "analyzeTransaction env txHash = Inl e"
  then obtain c where "e = createTransactionError TRANSACTION_FAILED (''Analysis failed: '' @ e_message c)
        [(''txHash'', DValue (JStr txHash))]"
    by (auto simp: analyzeTransaction_def split: sum.splits)
  then show "e_name e = ''TransactionError''" "e_code e = Some ''TRANSACTION_FAILED''"
    "take 17 (e_message e) = ''Analysis failed: ''" "e_details e = [(''txHash'', DValue (JStr txHash))]"
    by (simp_all add: createTransactionError_def TRANSACTION_FAILED_def)
next
  assume "provider_getTransaction env txHash = Inr None"
  then show "analyzeTransaction env txHash =
        Inl (JsError ''TransactionError'' (Some ''TRANSACTION_FAILED'')
               (''Analysis failed: Transaction not found: '' @ txHash) JUndefined
               [(''txHash'', DValue (JStr txHash))])"
    by (simp add: analyze_defs)
next
  fix tx
  assume "provider_getTransaction env txHash = Inr (Some tx)"
    and "provider_getTransactionReceipt env txHash = Inr None"
  then show "\<exists>res. analyzeTransaction env txHash = Inr res \<and> an_status res = ''Pending'' \<and>
         an_gasUsed res = ''Pending'' \<and> an_blockNumber res = BlockMarker ''Pending'' \<and>
         an_logs res = 0 \<and> an_gasCost res = None"
    by (simp add: analyze_defs)
qed

theorem analyzeTransaction_failure_and_pending_witness:
  "provider_getTransaction env_unknown_tx ''0xabc'' = Inr None \<and>
   analyzeTransaction env_unknown_tx ''0xabc'' =
     Inl (JsError ''TransactionError'' (Some ''TRANSACTION_FAILED'')
            ''Analysis failed: Transaction not found: 0xabc'' JUndefined
            [(''txHash'', DValue (JStr ''0xabc''))]) \<and>
   provider_getTransaction example_env ''0xabc'' =
     Inr (Some \<lparr> tr_from = JStr ''0xA11CE'', tr_to = JStr ''0xB0B'', tr_value = 1, tr_gasPrice = 30000000000 \<rparr>) \<and>
   provider_getTransactionReceipt example_env ''0xabc'' = Inr None \<and>
   (\<exists>res. analyzeTransaction example_env ''0xabc'' = Inr res \<and> an_status res = ''Pending'' \<and>
      an_gasUsed res = ''Pending'' \<and> an_blockNumber res = BlockMarker ''Pending'')"
proof -
  have u: "provider_getTransaction env_unknown_tx ''0xabc'' = Inr None"
    by (simp add: env_unknown_tx_def example_env_def)
  have t: "provider_getTransaction example_env ''0xabc'' =
     Inr (Some \<lparr> tr_from = JStr ''0xA11CE'', tr_to = JStr ''0xB0B'', tr_value = 1, tr_gasPrice = 30000000000 \<rparr>)"
    and r: "provider_getTransactionReceipt example_env ''0xabc'' = Inr None"
    by (simp_all add: example_env_def)
  from analyzeTransaction_failure_and_pending [of env_unknown_tx "''0xabc''"] u
  have first: "analyzeTransaction env_unknown_tx ''0xabc'' =
     Inl (JsError ''TransactionError'' (Some ''TRANSACTION_FAILED'')
            ''Analysis failed: Transaction not found: 0xabc'' JUndefined
            [(''txHash'', DValue (JStr ''0xabc''))])"
    by simp
  from analyzeTransaction_failure_and_pending [of example_env "''0xabc''"] t r
  have second: "\<exists>res. analyzeTransaction example_env ''0xabc'' = Inr res \<and> an_status res = ''Pending'' \<and>
      an_gasUsed res = ''Pending'' \<and> an_blockNumber res = BlockMarker ''Pending''"
    by blast
  from u t r first second show ?thesis by blast
qed

text \<open>The hash resolves to a transaction, the receipt lookup times out, and the analysis fails.\<close>

theorem receipt_failure_counterexample:
  "provider_getTransaction env_receipt_fails ''0xabc'' =
     Inr (Some \<lparr> tr_from = JStr ''0xA11CE'', tr_to = JStr ''0xB0B'', tr_value = 1, tr_gasPrice = 30000000000 \<rparr>) \<and>
   analyzeTransaction env_receipt_fails ''0xabc'' =
     Inl (JsError ''TransactionError'' (Some ''TRANSACTION_FAILED'') ''Analysis failed: timeout''
            JUndefined [(''txHash'', DValue (JStr ''0xabc''))])"
  by (simp add: analyze_defs env_receipt_fails_def example_env_def)

text \<open>
  C7. A simulation that completes, of a request whose data starts with the transfer selector
  and decodes to \<^verbatim>\<open>transfer(recipient, 500 * 10^18)\<close>, sent to a token with symbol
  \<^verbatim>\<open>TEST\<close> and 18 decimals, has exactly one token transfer: the token is the request's
  \<open>to\<close>, \<open>from\<close> is the \<open>from\<close> of the simulated copy, the amount is \<^verbatim>\<open>500.0\<close> and the raw
  amount \<^verbatim>\<open>500000000000000000000\<close>. Data that does not start with the selector gives no
  entry. The copy has the \<open>to\<close> and the \<open>data\<close> of the caller's request.
\<close>

theorem erc20_transfer_entry:
  assumes "fst (simulateTransaction env h transaction) = Inr r"
    and "tx = heap_read (snd (simulateTransaction env h transaction)) (next_addr h)"
  shows "(fst (simulateTransaction_try env h transaction) = Inr r \<and>
          truthy (tx_to tx) \<and> tx_data tx = JStr d \<and> d \<noteq> [] \<and>
          startsWith d (ERC20_TRANSFER_SIGNATURE env) \<and>
          parseTransaction env (JStr d) =
            Inr (Some \<lparr> dc_name = ''transfer'', dc_args0 = recipient, dc_args1 = 500 * 10 ^ 18 \<rparr>) \<and>
          new_Contract env (tx_to tx) = Inr () \<and>
          contract_symbol env (tx_to tx) = Inr ''TEST'' \<and>
          contract_decimals env (tx_to tx) = Inr 18 \<longrightarrow>
          tokenTransfers r =
            [\<lparr> tt_token = tx_to tx, tt_symbol = ''TEST'', tt_from = tx_from tx, tt_to = recipient,
               tt_amount = ''500.0'', tt_rawAmount = ''500000000000000000000'',
               tt_type = ''ERC20'' \<rparr>]) \<and>
         ((\<forall>d. tx_data tx = JStr d \<longrightarrow> \<not> startsWith d (ERC20_TRANSFER_SIGNATURE env)) \<longrightarrow>
          tokenTransfers r = []) \<and>
         tx_to tx = tx_to (heap_read h transaction) \<and>
         tx_data tx = tx_data (heap_read h transaction)"
proof (intro conjI impI)
  obtain res h1 where tr: "simulateTransaction_try env h transaction = (res, h1)"
    by (cases "simulateTransaction_try env h transaction")
  have heap: "snd (simulateTransaction env h transaction) = h1"
    using tr by (simp add: simulateTransaction_heap)
  have tx: "tx = heap_read h1 (next_addr h)" using assms(2) heap by simp
  show "tx_to tx = tx_to (heap_read h transaction)" "tx_data tx = tx_data (heap_read h transaction)"
    using fill_request_to_data [of env "fst (spread h transaction)" "next_addr h"]
    by (simp_all add: assms(2) simulateTransaction_copy spread_read)
  {
    assume a: "fst (simulateTransaction_try env h transaction) = Inr r \<and>
          truthy (tx_to tx) \<and> tx_data tx = JStr d \<and> d \<noteq> [] \<and>
          startsWith d (ERC20_TRANSFER_SIGNATURE env) \<and>
          parseTransaction env (JStr d) =
            Inr (Some \<lparr> dc_name = ''transfer'', dc_args0 = recipient, dc_args1 = 500 * 10 ^ 18 \<rparr>) \<and>
          new_Contract env (tx_to tx) = Inr () \<and>
          contract_symbol env (tx_to tx) = Inr ''TEST'' \<and>
          contract_decimals env (tx_to tx) = Inr 18"
    then have "simulateTransaction_try env h transaction = (Inr r, h1)" using tr by simp
    then have run: "simulate_run env tx = Inr r"
      using simulateTransaction_try_Inr tx by simp
    then obtain r2 r3 where e: "tokenTransfers r2 = []" and d: "detectTokenTransfers env tx r2 = Inr r3"
      and t: "tokenTransfers r = tokenTransfers r3"
      using simulate_run_tokenTransfers by blast
    have "detectTokenTransfers env tx r2 = Inr (r2\<lparr> tokenTransfers := tokenTransfers r2 @
           [\<lparr> tt_token = tx_to tx, tt_symbol = ''TEST'', tt_from = tx_from tx, tt_to = recipient,
              tt_amount = ''500.0'', tt_rawAmount = bigint_toString (500 * 10 ^ 18),
              tt_type = ''ERC20'' \<rparr>] \<rparr>)"
      by (rule detectTokenTransfers_transfer; (rule format_500)?; use a in blast)
    with d e t show "tokenTransfers r =
            [\<lparr> tt_token = tx_to tx, tt_symbol = ''TEST'', tt_from = tx_from tx, tt_to = recipient,
               tt_amount = ''500.0'', tt_rawAmount = ''500000000000000000000'',
               tt_type = ''ERC20'' \<rparr>]"
      by (simp only: raw_500) auto
  }
  {
    assume n: "\<forall>d. tx_data tx = JStr d \<longrightarrow> \<not> startsWith d (ERC20_TRANSFER_SIGNATURE env)"
    show "tokenTransfers r = []"
    proof (cases res)
      case (Inl error)
      with tr assms(1) show ?thesis
        by (auto simp: simulateTransaction_def fallback_result_def)
    next
      case (Inr r')
      with tr assms(1) have "r' = r" by (simp add: simulateTransaction_def)
      with tr Inr have run: "simulate_run env tx = Inr r"
        using simulateTransaction_try_Inr tx by simp
      then obtain r2 r3 where e: "tokenTransfers r2 = []" and d: "detectTokenTransfers env tx r2 = Inr r3"
        and t: "tokenTransfers r = tokenTransfers r3"
        using simulate_run_tokenTransfers by blast
      from detectTokenTransfers_other [OF n d] e t show ?thesis by simp
    qed
  }
qed

theorem erc20_transfer_entry_witness:
  "fst (simulateTransaction example_env example_heap 0) = Inr example_result \<and>
   fst (simulateTransaction_try example_env example_heap 0) = Inr example_result \<and>
   heap_read (snd (simulateTransaction example_env example_heap 0)) (next_addr example_heap) = example_copy \<and>
   truthy (tx_to example_copy) \<and> tx_data example_copy = JStr ''0xa9059cbb0001'' \<and>
   startsWith ''0xa9059cbb0001'' (ERC20_TRANSFER_SIGNATURE example_env) \<and>
   parseTransaction example_env (JStr ''0xa9059cbb0001'') =
     Inr (Some \<lparr> dc_name = ''transfer'', dc_args0 = JStr ''0xB0B'', dc_args1 = 500 * 10 ^ 18 \<rparr>) \<and>
   new_Contract example_env (tx_to example_copy) = Inr () \<and>
   contract_symbol example_env (tx_to example_copy) = Inr ''TEST'' \<and>
   contract_decimals example_env (tx_to example_copy) = Inr 18 \<and>
   tokenTransfers example_result =
     [\<lparr> tt_token = JStr ''0xT0KEN'', tt_symbol = ''TEST'', tt_from = JStr ''0xA11CE'',
        tt_to = JStr ''0xB0B'', tt_amount = ''500.0'', tt_rawAmount = ''500000000000000000000'',
        tt_type = ''ERC20'' \<rparr>] \<and>
   tx_data (heap_read supplied_heap 0) = JUndefined \<and>
   (\<exists>r. fst (simulateTransaction example_env supplied_heap 0) = Inr r \<and> tokenTransfers r = [])"
proof -
  have s: "fst (simulateTransaction example_env example_heap 0) = Inr example_result"
    and t: "fst (simulateTransaction_try example_env example_heap 0) = Inr example_result"
    and c: "heap_read (snd (simulateTransaction example_env example_heap 0)) (next_addr example_heap) = example_copy"
    by (simp_all add: example_simulate example_try example_after_read)
  have fields: "truthy (tx_to example_copy)" "tx_data example_copy = JStr ''0xa9059cbb0001''"
    "tx_from example_copy = JStr ''0xA11CE''" "tx_to example_copy = JStr ''0xT0KEN''"
    by (simp_all add: example_copy_def example_request_def empty_request_def)
  have env: "startsWith ''0xa9059cbb0001'' (ERC20_TRANSFER_SIGNATURE example_env)"
    "parseTransaction example_env (JStr ''0xa9059cbb0001'') =
       Inr (Some \<lparr> dc_name = ''transfer'', dc_args0 = JStr ''0xB0B'', dc_args1 = 500 * 10 ^ 18 \<rparr>)"
    "new_Contract example_env (tx_to example_copy) = Inr ()"
    "contract_symbol example_env (tx_to example_copy) = Inr ''TEST''"
    "contract_decimals example_env (tx_to example_copy) = Inr 18"
    by (simp_all add: example_env_def startsWith_def fields)
  have first: "tokenTransfers example_result =
     [\<lparr> tt_token = JStr ''0xT0KEN'', tt_symbol = ''TEST'', tt_from = JStr ''0xA11CE'',
        tt_to = JStr ''0xB0B'', tt_amount = ''500.0'', tt_rawAmount = ''500000000000000000000'',
        tt_type = ''ERC20'' \<rparr>]"
    using erc20_transfer_entry [OF s c [symmetric], of "''0xa9059cbb0001''" "JStr ''0xB0B''"] t fields env
    by simp
  have u: "tx_data (heap_read supplied_heap 0) = JUndefined"
    by (simp add: store_defs example_defs2)
  obtain r where r: "fst (simulateTransaction example_env supplied_heap 0) = Inr r"
    using simulateTransaction_returns by blast
  from erc20_transfer_entry [OF r refl] u have "tokenTransfers r = []" by simp
  with r have second: "\<exists>r. fst (simulateTransaction example_env supplied_heap 0) = Inr r \<and> tokenTransfers r = []"
    by blast
  from s t c fields env first u second show ?thesis by simp
qed

text \<open>
  C8. When the body of the loop throws for one token of the registry, the scan still
  returns a report, and it is the report of the registry without that token: the tokens
  before and after it are scanned and reported as if it were not there.
\<close>

theorem failing_token_is_skipped:
  assumes "truthy address" and "isAddress env address"
    and "tokenAddresses env = before @ bad # after"
    and "scan_token env address (block_param fromBlock) (block_param toBlock) bad [] = Inl error"
  shows "\<exists>report. getTokenBalanceChanges env address fromBlock toBlock = Inr report \<and>
           getTokenBalanceChanges (env\<lparr> tokenAddresses := before @ after \<rparr>) address fromBlock toBlock = Inr report \<and>
           rp_changes report =
             scan_tokens env address (block_param fromBlock) (block_param toBlock) after
               (scan_tokens env address (block_param fromBlock) (block_param toBlock) before [])"
  using assms
  by (simp add: getTokenBalanceChanges_def Let_def scan_tokens_registry scan_token_registry
      scan_tokens_concat)

theorem failing_token_is_skipped_witness:
  "truthy (JStr ''0xA11CE'') \<and> isAddress example_env (JStr ''0xA11CE'') \<and>
   tokenAddresses example_env = [(''TEST'', JStr ''0xT0KEN'')] @ (''BAD'', JStr ''misconfigured'') # [(''USDC'', JStr ''0xU5DC'')] \<and>
   scan_token example_env (JStr ''0xA11CE'') (block_param (JStr ''100'')) (block_param JUndefined)
     (''BAD'', JStr ''misconfigured'') [] = Inl (new_Error ''invalid address'') \<and>
   getTokenBalanceChanges example_env (JStr ''0xA11CE'') (JStr ''100'') JUndefined = Inr example_report \<and>
   getTokenBalanceChanges (example_env\<lparr> tokenAddresses := [(''TEST'', JStr ''0xT0KEN'')] @ [(''USDC'', JStr ''0xU5DC'')] \<rparr>)
     (JStr ''0xA11CE'') (JStr ''100'') JUndefined = Inr example_report"
proof -
  have a: "truthy (JStr ''0xA11CE'')" and i: "isAddress example_env (JStr ''0xA11CE'')"
    and t: "tokenAddresses example_env = [(''TEST'', JStr ''0xT0KEN'')] @ (''BAD'', JStr ''misconfigured'') # [(''USDC'', JStr ''0xU5DC'')]"
    by (simp_all add: example_env_def)
  have b: "scan_token example_env (JStr ''0xA11CE'') (block_param (JStr ''100'')) (block_param JUndefined)
     (''BAD'', JStr ''misconfigured'') [] = Inl (new_Error ''invalid address'')"
    by (simp add: scan_token_def example_env_def)
  from failing_token_is_skipped [OF a i t b] example_scan a i t b show ?thesis
    by auto
qed

text \<open>
  C9. \<^verbatim>\<open>simulateTransaction\<close> and \<^verbatim>\<open>estimateGas\<close> leave the caller's request object as
  it was: every fill-in is written to the copy, which is allocated at the next free address.
\<close>

theorem request_not_mutated:
  assumes "transaction < next_addr h"
  shows "objs (snd (simulateTransaction env h transaction)) transaction = objs h transaction \<and>
         objs (snd (estimateGas env h transaction)) transaction = objs h transaction"
  using assms
  by (simp add: simulateTransaction_heap simulateTransaction_try_heap fill_request_frame
      estimateGas_heap estimateGas_try_heap fill_from_frame spread_objs)

theorem request_not_mutated_witness:
  "(0::nat) < next_addr example_heap \<and>
   objs (snd (simulateTransaction example_env example_heap 0)) 0 = Some example_request \<and>
   objs (snd (estimateGas example_env example_heap 0)) 0 = Some example_request \<and>
   tx_from example_request = JUndefined \<and>
   tx_from (heap_read (snd (simulateTransaction example_env example_heap 0)) (next_addr example_heap))
     = JStr ''0xA11CE''"
proof -
  have a: "(0::nat) < next_addr example_heap" by (simp add: example_heap_def)
  have o: "objs example_heap 0 = Some example_request" by (simp add: example_heap_def)
  have c: "tx_from (heap_read (snd (simulateTransaction example_env example_heap 0)) (next_addr example_heap))
     = JStr ''0xA11CE''"
    by (simp add: example_simulate example_try example_after_read example_copy_def)
  from request_not_mutated [OF a, of example_env] a o c show ?thesis
    by (simp add: example_request_def empty_request_def)
qed

text \<open>
  C10. When \<^verbatim>\<open>estimateGas\<close> succeeds, \<open>gasLimit\<close> and \<open>recommendedGasLimit\<close> are the
  same string, the decimal form of the buffered estimate; \<open>gasEstimate\<close> is the decimal form
  of the raw estimate, and the two differ as soon as the buffer changes the value, that is
  for every estimate of at least 5.
\<close>

theorem estimateGas_limits_equal:
  assumes "fst (estimateGas env h transaction) = Inr r"
  shows "gasLimit r = recommendedGasLimit r \<and>
         (\<exists>E tx. provider_estimateGas env Standalone tx = Inr E \<and>
            gasEstimate r = bigint_toString E \<and>
            gasLimit r = bigint_toString (gas_buffer E) \<and>
            (5 \<le> E \<longrightarrow> gasLimit r \<noteq> gasEstimate r))"
proof -
  from assms obtain E tx where E: "provider_estimateGas env Standalone tx = Inr E"
    and r: "r = \<lparr> gasEstimate = bigint_toString E, gasLimit = bigint_toString (gas_buffer E),
                 recommendedGasLimit = bigint_toString (gas_buffer E) \<rparr>"
    using estimateGas_try_Inr [OF estimateGas_Inr] by blast
  have "bigint_toString (gas_buffer E) \<noteq> bigint_toString E" if "5 \<le> E"
    using gas_buffer_gt [OF that] bigint_toString_inj [of "gas_buffer E" E] by auto
  with E r show ?thesis by auto
qed

theorem estimateGas_limits_equal_witness:
  "fst (estimateGas example_env example_heap 0) =
     Inr \<lparr> gasEstimate = ''21003'', gasLimit = ''25203'', recommendedGasLimit = ''25203'' \<rparr> \<and>
   (\<exists>E tx. provider_estimateGas example_env Standalone tx = Inr E \<and>
      ''21003'' = bigint_toString E \<and> ''25203'' = bigint_toString (gas_buffer E) \<and>
      (5 \<le> E \<longrightarrow> ''25203'' \<noteq> ''21003''))"
proof -
  have run: "fst (estimateGas example_env example_heap 0) =
     Inr \<lparr> gasEstimate = ''21003'', gasLimit = ''25203'', recommendedGasLimit = ''25203'' \<rparr>"
    by (simp add: estimate_defs store_defs example_defs string_defs)
  from estimateGas_limits_equal [OF run] run show ?thesis by simp
qed

end
